theory Spec2Isabelle
  imports Complex_Main
begin

section \<open>Values, columns and frames\<close>

text \<open>
  The program of \<^verbatim>\<open>backend/Stock_Functions.py\<close> works on pandas data frames: an index of
  dates and named columns of equal length. A column holds 64-bit floats or integers.
  A float is modelled as a real number, an infinity or NaN: rounding and overflow are not
  modelled, the propagation of NaN and the results of dividing by zero are.
  A date is the number of days since 1970-01-01.
\<close>

datatype float64 = NaN | PInf | NInf | Finite real

datatype column = FloatCol "float64 list" | IntCol "int list"

record frame =
  index :: "int list"
  columns :: "(string \<times> column) list"

datatype error = KeyError | ValueError | IndexError

text \<open>An exception ends the computation: the rest of the function is skipped.\<close>

definition and_then :: "error + 'a \<Rightarrow> ('a \<Rightarrow> error + 'b) \<Rightarrow> error + 'b" where
  "and_then r f = (case r of Inl e \<Rightarrow> Inl e | Inr v \<Rightarrow> f v)"

subsection \<open>Float arithmetic\<close>

text \<open>\<open>a > b\<close> on floats: every comparison with NaN is false.\<close>

fun fgt :: "float64 \<Rightarrow> float64 \<Rightarrow> bool" where
  "fgt NaN b = False"
| "fgt a NaN = False"
| "fgt PInf b = (b \<noteq> PInf)"
| "fgt NInf b = False"
| "fgt (Finite x) PInf = False"
| "fgt (Finite x) NInf = True"
| "fgt (Finite x) (Finite y) = (y < x)"

fun fadd :: "float64 \<Rightarrow> float64 \<Rightarrow> float64" where
  "fadd NaN b = NaN"
| "fadd a NaN = NaN"
| "fadd PInf b = (if b = NInf then NaN else PInf)"
| "fadd NInf b = (if b = PInf then NaN else NInf)"
| "fadd (Finite x) PInf = PInf"
| "fadd (Finite x) NInf = NInf"
| "fadd (Finite x) (Finite y) = Finite (x + y)"

text \<open>
  \<open>a / b\<close> as numpy computes it: no exception, \<open>0 / 0\<close> and \<open>inf / inf\<close> are NaN,
  \<open>x / 0\<close> is an infinity with the sign of \<open>x\<close> (the sign of a zero is not modelled).
\<close>

fun fdiv :: "float64 \<Rightarrow> float64 \<Rightarrow> float64" where
  "fdiv NaN b = NaN"
| "fdiv a NaN = NaN"
| "fdiv (Finite x) (Finite y) =
     (if y = 0 then (if x = 0 then NaN else if 0 < x then PInf else NInf)
      else Finite (x / y))"
| "fdiv (Finite x) b = Finite 0"
| "fdiv PInf (Finite y) = (if y < 0 then NInf else PInf)"
| "fdiv NInf (Finite y) = (if y < 0 then PInf else NInf)"
| "fdiv a b = NaN"

definition isna :: "float64 \<Rightarrow> bool" where
  "isna v = (v = NaN)"

text \<open>A number: neither NaN nor an infinity.\<close>

definition isfinite :: "float64 \<Rightarrow> bool" where
  "isfinite v = (case v of Finite x \<Rightarrow> True | _ \<Rightarrow> False)"

subsection \<open>Columns\<close>

fun floats_of :: "column \<Rightarrow> float64 list" where
  "floats_of (FloatCol xs) = xs"
| "floats_of (IntCol ns) = map (\<lambda>n. Finite (of_int n)) ns"

fun col_len :: "column \<Rightarrow> nat" where
  "col_len (FloatCol xs) = length xs"
| "col_len (IntCol ns) = length ns"

text \<open>Positions \<open>a \<le> k < b\<close> of a column; a bound beyond the end is clipped, as a slice is.\<close>

fun col_slice :: "nat \<Rightarrow> nat \<Rightarrow> column \<Rightarrow> column" where
  "col_slice a b (FloatCol xs) = FloatCol (take (b - a) (drop a xs))"
| "col_slice a b (IntCol ns) = IntCol (take (b - a) (drop a ns))"

fun col_isna :: "column \<Rightarrow> bool list" where
  "col_isna (FloatCol xs) = map isna xs"
| "col_isna (IntCol ns) = map (\<lambda>n. False) ns"

text \<open>The entries of a list at the positions where the flag is true.\<close>

definition select :: "bool list \<Rightarrow> 'a list \<Rightarrow> 'a list" where
  "select keep xs = map snd (filter fst (zip keep xs))"

fun col_select :: "bool list \<Rightarrow> column \<Rightarrow> column" where
  "col_select keep (FloatCol xs) = FloatCol (select keep xs)"
| "col_select keep (IntCol ns) = IntCol (select keep ns)"

text \<open>\<open>series.shift(-1)\<close>: every value moves one position up, the last position is NaN.\<close>

definition shift_back :: "float64 list \<Rightarrow> float64 list" where
  "shift_back xs = (if xs = [] then [] else tl xs @ [NaN])"

text \<open>\<open>(a > b).astype(int)\<close>, position by position.\<close>

definition gt_astype_int :: "float64 list \<Rightarrow> float64 list \<Rightarrow> int list" where
  "gt_astype_int xs ys = map (\<lambda>(x, y). if fgt x y then 1 else 0) (zip xs ys)"

subsection \<open>Frames\<close>

definition nrows :: "frame \<Rightarrow> nat" where
  "nrows f = length (index f)"

text \<open>\<open>data[name]\<close> raises KeyError when there is no such column.\<close>

definition getitem :: "string \<Rightarrow> frame \<Rightarrow> error + column" where
  "getitem name f =
     (case map_of (columns f) name of None \<Rightarrow> Inl KeyError | Some c \<Rightarrow> Inr c)"

text \<open>\<open>del data[name]\<close> changes the frame in place; the result is the frame afterwards.\<close>

definition delitem :: "string \<Rightarrow> frame \<Rightarrow> error + frame" where
  "delitem name f =
     (if name \<in> set (map fst (columns f))
      then Inr (f\<lparr>columns := filter (\<lambda>p. fst p \<noteq> name) (columns f)\<rparr>)
      else Inl KeyError)"

text \<open>
  \<open>data[name] = col\<close> changes the frame in place: an existing column is replaced where it
  stands, a new one is appended.
\<close>

fun put_column :: "string \<Rightarrow> column \<Rightarrow> (string \<times> column) list \<Rightarrow> (string \<times> column) list" where
  "put_column name c [] = [(name, c)]"
| "put_column name c (p # ps) =
     (if fst p = name then (name, c) # ps else p # put_column name c ps)"

definition setitem :: "string \<Rightarrow> column \<Rightarrow> frame \<Rightarrow> frame" where
  "setitem name c f = f\<lparr>columns := put_column name c (columns f)\<rparr>"

text \<open>\<open>data.iloc[a:b]\<close> for natural \<open>a\<close> and \<open>b\<close>.\<close>

definition iloc :: "nat \<Rightarrow> nat \<Rightarrow> frame \<Rightarrow> frame" where
  "iloc a b f =
     \<lparr>index = take (b - a) (drop a (index f)),
      columns = map (\<lambda>(name, c). (name, col_slice a b c)) (columns f)\<rparr>"

text \<open>
  \<open>data.loc[d:]\<close> on an ascending date index, which is what the provider sends: the rows
  from the first one dated \<open>d\<close> or later. On an index that is not ascending pandas
  raises KeyError when the date is not in the index and selects the rows by comparison
  when it is; the definition does not follow pandas there, and the properties of
  \<open>clean_data\<close> below are stated for ascending dates.
\<close>

definition loc_from :: "int \<Rightarrow> frame \<Rightarrow> frame" where
  "loc_from d f =
     iloc (length (takeWhile (\<lambda>t. t < d) (index f))) (nrows f) f"

section \<open>The provider's frame\<close>

text \<open>
  \<open>get_stock_data\<close> returns what the market-data provider sends: one row per trading day
  with the columns Open, High, Low, Close, Volume, Dividends and Stock Splits.
\<close>

record bar =
  date :: int
  open_price :: float64
  high :: float64
  low :: float64
  close :: float64
  volume :: int
  dividends :: float64
  stock_splits :: float64

definition frame_of_bars :: "bar list \<Rightarrow> frame" where
  "frame_of_bars bs =
     \<lparr>index = map date bs,
      columns =
        [(''Open'', FloatCol (map open_price bs)),
         (''High'', FloatCol (map high bs)),
         (''Low'', FloatCol (map low bs)),
         (''Close'', FloatCol (map close bs)),
         (''Volume'', IntCol (map volume bs)),
         (''Dividends'', FloatCol (map dividends bs)),
         (''Stock Splits'', FloatCol (map stock_splits bs))]\<rparr>"

section \<open>clean\_data\<close>

text \<open>2000-01-01 is day 10957.\<close>

definition floor_date :: int where
  "floor_date = 10957"

text \<open>
  \<open>clean_data\<close> deletes six columns of the frame it is given and adds two, in place, and
  returns a copy of the rows from 2000 on. The result is the pair of the caller's frame as
  the call leaves it and the frame returned.
\<close>

definition clean_data :: "frame \<Rightarrow> error + (frame \<times> frame)" where
  "clean_data data =
     and_then (delitem ''Dividends'' data) (\<lambda>d1.
     and_then (delitem ''Stock Splits'' d1) (\<lambda>d2.
     and_then (delitem ''Volume'' d2) (\<lambda>d3.
     and_then (delitem ''Low'' d3) (\<lambda>d4.
     and_then (delitem ''High'' d4) (\<lambda>d5.
     and_then (delitem ''Open'' d5) (\<lambda>d6.
     and_then (getitem ''Close'' d6) (\<lambda>c.
       let d7 = setitem ''Tomorrow'' (FloatCol (shift_back (floats_of c))) d6 in
     and_then (getitem ''Tomorrow'' d7) (\<lambda>t.
     and_then (getitem ''Close'' d7) (\<lambda>c'.
       let d8 = setitem ''Target'' (IntCol (gt_astype_int (floats_of t) (floats_of c'))) d7 in
       Inr (d8, loc_from floor_date d8))))))))))"

text \<open>The columns \<open>clean_data\<close> computes from the provider's bars, written out.\<close>

definition tomorrow_of :: "bar list \<Rightarrow> float64 list" where
  "tomorrow_of bs = shift_back (map close bs)"

definition target_of :: "bar list \<Rightarrow> int list" where
  "target_of bs = gt_astype_int (tomorrow_of bs) (map close bs)"

definition floor_pos :: "bar list \<Rightarrow> nat" where
  "floor_pos bs = length (takeWhile (\<lambda>t. t < floor_date) (map date bs))"

section \<open>add\_predictors\<close>

definition benchmarks :: "nat list" where
  "benchmarks = [2, 5, 21, 21 * 3, 252, 252 * 5]"

text \<open>The decimal digits of a number, as an f-string prints it.\<close>

function str_of_nat :: "nat \<Rightarrow> string" where
  "str_of_nat n =
     (if n < 10 then [''0123456789'' ! n]
      else str_of_nat (n div 10) @ [''0123456789'' ! (n mod 10)])"
  by pat_completeness auto
termination
  by (relation "measure (\<lambda>n. n)") auto

definition ratio_column :: "nat \<Rightarrow> string" where
  "ratio_column benchmark = ''Close_Ratio_'' @ str_of_nat benchmark"

text \<open>
  \<open>series.rolling(h).mean()\<close>: at position \<open>k\<close> the mean of the \<open>h\<close> values ending at
  \<open>k\<close>; NaN while fewer than \<open>h\<close> values exist and when one of them is NaN or an
  infinity (\<open>min_periods\<close> is the window size, and \<open>rolling\<close> takes an infinity for
  a missing value). The mean is the exact one.
\<close>

definition rolling_mean :: "nat \<Rightarrow> float64 list \<Rightarrow> float64 list" where
  "rolling_mean h xs =
     map (\<lambda>k. let w = take h (drop (k + 1 - h) xs)
              in if k + 1 < h \<or> list_ex (\<lambda>v. \<not> isfinite v) w then NaN
                 else fdiv (foldr fadd w (Finite 0)) (Finite (real h)))
       [0..<length xs]"

definition div_columns :: "float64 list \<Rightarrow> float64 list \<Rightarrow> float64 list" where
  "div_columns xs ys = map (\<lambda>(x, y). fdiv x y) (zip xs ys)"

text \<open>
  The loop over the benchmarks. \<open>data.rolling(benchmark).mean()\<close> averages every column;
  only the averages of Close are read. Each round adds a column to the frame in place.
\<close>

fun add_ratio_columns ::
  "nat list \<Rightarrow> frame \<Rightarrow> string list \<Rightarrow> error + (frame \<times> string list)" where
  "add_ratio_columns [] data new_predictors = Inr (data, new_predictors)"
| "add_ratio_columns (benchmark # rest) data new_predictors =
     and_then (getitem ''Close'' data) (\<lambda>c.
       let rolling_close = rolling_mean benchmark (floats_of c);
           data' = setitem (ratio_column benchmark)
                     (FloatCol (div_columns (floats_of c) rolling_close)) data
       in add_ratio_columns rest data' (new_predictors @ [ratio_column benchmark]))"

text \<open>
  \<open>data.dropna(subset=data.columns[data.columns != name])\<close>: a new frame without the rows
  that have a NaN in a column other than \<open>name\<close>.
\<close>

definition dropna_except :: "string \<Rightarrow> frame \<Rightarrow> frame" where
  "dropna_except name f =
     (let subset = filter (\<lambda>p. fst p \<noteq> name) (columns f);
          keep = map (\<lambda>k. list_all (\<lambda>p. \<not> col_isna (snd p) ! k) subset) [0..<nrows f]
      in \<lparr>index = select keep (index f),
          columns = map (\<lambda>(n, c). (n, col_select keep c)) (columns f)\<rparr>)"

text \<open>
  The result is the caller's frame as the call leaves it, the frame returned and the list
  of the new column names.
\<close>

definition add_predictors :: "frame \<Rightarrow> error + (frame \<times> frame \<times> string list)" where
  "add_predictors data =
     and_then (add_ratio_columns benchmarks data []) (\<lambda>(data', new_predictors).
       Inr (data', dropna_except ''Tomorrow'' data', new_predictors))"

section \<open>predict and backtest\<close>

text \<open>
  The classifier is a library object. It is a parameter here: \<open>fit\<close> takes the state of
  the model object, the feature frame and the label column and gives the new state;
  \<open>predict_proba\<close> gives one row of class probabilities per feature row.
  Either may raise.
\<close>

record 'm classifier =
  fit :: "'m \<Rightarrow> frame \<Rightarrow> column \<Rightarrow> error + 'm"
  predict_proba :: "'m \<Rightarrow> frame \<Rightarrow> error + real list list"

text \<open>\<open>data[names]\<close>: the frame of the named columns, in that order.\<close>

definition getitems :: "string list \<Rightarrow> frame \<Rightarrow> error + frame" where
  "getitems names f =
     (if list_all (\<lambda>n. n \<in> set (map fst (columns f))) names
      then Inr \<lparr>index = index f,
                columns = map (\<lambda>n. (n, the (map_of (columns f) n))) names\<rparr>
      else Inl KeyError)"

text \<open>\<open>proba[:, 1]\<close>: IndexError when the rows have fewer than two entries.\<close>

definition second_column :: "real list list \<Rightarrow> error + real list" where
  "second_column proba =
     (if list_all (\<lambda>r. 2 \<le> length r) proba then Inr (map (\<lambda>r. r ! 1) proba)
      else Inl IndexError)"

text \<open>\<open>xs[cond(xs)] = v\<close>: the entries that satisfy the condition are overwritten.\<close>

definition assign_where :: "(real \<Rightarrow> bool) \<Rightarrow> real \<Rightarrow> real list \<Rightarrow> real list" where
  "assign_where cond v xs = map (\<lambda>x. if cond x then v else x) xs"

text \<open>
  Lines 98 to 100 of \<open>predict\<close>, with the literal 0.60 as the argument \<open>t\<close>:
  first the entries at or above \<open>t\<close> become 1, then the entries below \<open>t\<close> become 0.
\<close>

definition cutoff :: "real \<Rightarrow> real list \<Rightarrow> real list" where
  "cutoff t preds =
     (let preds1 = assign_where (\<lambda>x. t \<le> x) 1 preds
      in assign_where (\<lambda>x. x < t) 0 preds1)"

definition preds_60 :: "real list \<Rightarrow> real list" where
  "preds_60 preds = cutoff 0.60 preds"

text \<open>
  \<open>predict\<close> fits the model on the training frame and labels the test frame. The
  result is the frame of the columns Target and Predictions\_60\% over the index of the
  test frame, and the state of the model after the fit. \<open>pd.Series(values, index=...)\<close>
  raises ValueError when the lengths differ.
\<close>

definition predict ::
  "frame \<Rightarrow> frame \<Rightarrow> string list \<Rightarrow> 'm classifier \<Rightarrow> 'm \<Rightarrow> error + (frame \<times> 'm)" where
  "predict train test predictors clf model =
     and_then (getitems predictors train) (\<lambda>train_x.
     and_then (getitem ''Target'' train) (\<lambda>train_y.
     and_then (fit clf model train_x train_y) (\<lambda>model'.
     and_then (getitems predictors test) (\<lambda>test_x.
     and_then (predict_proba clf model' test_x) (\<lambda>proba.
     and_then (second_column proba) (\<lambda>preds.
       if length (preds_60 preds) \<noteq> nrows test then Inl ValueError
       else
     and_then (getitem ''Target'' test) (\<lambda>target.
       Inr (\<lparr>index = index test,
             columns = [(''Target'', target),
                        (''Predictions_60%'', FloatCol (map Finite (preds_60 preds)))]\<rparr>,
            model'))))))))"

text \<open>\<open>range(start, stop, step)\<close> for natural arguments; a zero step is refused by the caller.\<close>

function py_range :: "nat \<Rightarrow> nat \<Rightarrow> nat \<Rightarrow> nat list" where
  "py_range i stop step =
     (if step = 0 \<or> stop \<le> i then [] else i # py_range (i + step) stop step)"
  by pat_completeness auto
termination
  by (relation "measure (\<lambda>(i, stop, step). stop - i)") auto

text \<open>
  \<open>pd.concat(frames)\<close>: ValueError for the empty list; otherwise the rows of the frames
  one after the other, with the columns in the order of their first appearance. A frame
  without one of the columns contributes NaN there, and a column with integers and floats
  is a float column.
\<close>

fun col_append :: "column \<Rightarrow> column \<Rightarrow> column" where
  "col_append (IntCol a) (IntCol b) = IntCol (a @ b)"
| "col_append a b = FloatCol (floats_of a @ floats_of b)"

definition column_or_nan :: "string \<Rightarrow> frame \<Rightarrow> column" where
  "column_or_nan name f =
     (case map_of (columns f) name of
        Some c \<Rightarrow> c
      | None \<Rightarrow> FloatCol (replicate (nrows f) NaN))"

fun first_seen :: "string list \<Rightarrow> string list" where
  "first_seen [] = []"
| "first_seen (n # ns) = n # filter (\<lambda>k. k \<noteq> n) (first_seen ns)"

definition pd_concat :: "frame list \<Rightarrow> error + frame" where
  "pd_concat fs =
     (case fs of
        [] \<Rightarrow> Inl ValueError
      | f # rest \<Rightarrow>
          Inr \<lparr>index = concat (map index fs),
               columns =
                 map (\<lambda>n. (n, foldl col_append (column_or_nan n f) (map (column_or_nan n) rest)))
                   (first_seen (concat (map (\<lambda>g. map fst (columns g)) fs)))\<rparr>)"

text \<open>
  The loop of \<open>backtest\<close> over the values of the range: the training frame is a copy of
  the rows before \<open>i\<close>, the test frame a copy of the rows from \<open>i\<close> to \<open>i + step\<close>. The
  same model object goes through every round.
\<close>

fun backtest_loop ::
  "frame \<Rightarrow> 'm classifier \<Rightarrow> string list \<Rightarrow> nat \<Rightarrow> nat list \<Rightarrow> 'm \<Rightarrow> frame list
     \<Rightarrow> error + (frame list \<times> 'm)" where
  "backtest_loop data clf predictors step [] model all_predictions =
     Inr (all_predictions, model)"
| "backtest_loop data clf predictors step (i # rest) model all_predictions =
     (let train = iloc 0 i data;
          test = iloc i (i + step) data
      in and_then (predict train test predictors clf model) (\<lambda>(predictions, model').
           backtest_loop data clf predictors step rest model'
             (all_predictions @ [predictions])))"

text \<open>
  \<open>start\<close> and \<open>step\<close> are natural numbers (\<open>buy_stock\<close> passes a fifth of the number of
  rows and the default step 63). \<open>range\<close> raises ValueError for a zero step.
\<close>

definition backtest ::
  "frame \<Rightarrow> 'm classifier \<Rightarrow> 'm \<Rightarrow> string list \<Rightarrow> nat \<Rightarrow> nat \<Rightarrow> error + (frame \<times> 'm)" where
  "backtest data clf model predictors start step =
     (if step = 0 then Inl ValueError
      else
        and_then
          (backtest_loop data clf predictors step (py_range start (nrows data) step) model [])
          (\<lambda>(all_predictions, model').
        and_then (pd_concat all_predictions) (\<lambda>res. Inr (res, model'))))"

text \<open>
  \<open>buy_stock\<close> of \<^verbatim>\<open>Stock_Functions.py\<close>, from the provider's frame on. \<open>create_model\<close>
  builds a new model object, whose state is \<open>model\<close>.
\<close>

definition buy_stock :: "frame \<Rightarrow> 'm classifier \<Rightarrow> 'm \<Rightarrow> error + (frame \<times> 'm)" where
  "buy_stock raw clf model =
     and_then (clean_data raw) (\<lambda>(raw', data).
     and_then (add_predictors data) (\<lambda>(data', features, new_predictors).
       let predictors = new_predictors @ [''Close''];
           start_value = nrows features div 5
       in backtest features clf model predictors start_value (21 * 3)))"

section \<open>The route \<open>/api/buy_stock\<close>\<close>

text \<open>A whole number, which is what a class label is.\<close>

definition whole :: "float64 \<Rightarrow> bool" where
  "whole v = (case v of Finite x \<Rightarrow> of_int (floor x) = x | _ \<Rightarrow> False)"

text \<open>
  \<open>sklearn.metrics.precision_score\<close> with its defaults (the positive label is 1, the
  average is binary). It raises ValueError for vectors of different lengths, for empty
  vectors, for a value that is NaN, an infinity or not a whole number (a continuous target),
  for more than two labels in the two vectors together (a multiclass target), and for two
  labels of which none is 1. Otherwise the score is the share of the rows labelled 1 by the
  prediction whose true label is 1, and 0 (with a warning) when no row is labelled 1.
  The score is the exact quotient.
\<close>

definition precision_score :: "column \<Rightarrow> column \<Rightarrow> error + real" where
  "precision_score y_true y_pred =
     (let ts = floats_of y_true; ps = floats_of y_pred;
          present_labels = remdups (ts @ ps)
      in if length ts \<noteq> length ps \<or> ts = [] then Inl ValueError
         else if \<not> list_all whole (ts @ ps) then Inl ValueError
         else if 2 < length present_labels then Inl ValueError
         else if Finite 1 \<notin> set present_labels \<and> 2 \<le> length present_labels
           then Inl ValueError
         else
           let predicted = length (filter (\<lambda>p. p = Finite 1) ps);
               correct = length (filter (\<lambda>(t, p). t = Finite 1 \<and> p = Finite 1) (zip ts ps))
           in Inr (if predicted = 0 then 0 else real correct / real predicted))"

text \<open>\<open>predictions.iloc[-1][1]\<close>: the second entry of the last row.\<close>

definition last_row_second :: "frame \<Rightarrow> error + float64" where
  "last_row_second f =
     (if nrows f = 0 then Inl IndexError
      else if length (columns f) < 2 then Inl IndexError
      else Inr (last (floats_of (snd (columns f ! 1)))))"

text \<open>
  The route, from the predictions of \<open>buy_stock\<close> on. The result is the answer and the score
  in percent; the route prints the score with two decimals.
\<close>

definition api_buy_stock :: "frame \<Rightarrow> error + (string \<times> real)" where
  "api_buy_stock predictions =
     and_then (last_row_second predictions) (\<lambda>v.
       let should_buy_stock = (v \<noteq> Finite 0) in
     and_then (getitem ''Target'' predictions) (\<lambda>y_true.
     and_then (getitem ''Predictions_60%'' predictions) (\<lambda>y_pred.
     and_then (precision_score y_true y_pred) (\<lambda>buy_stock_precision_score.
       Inr (if should_buy_stock then ''Yes'' else ''No'',
            buy_stock_precision_score * 100)))))"

section \<open>Example data\<close>

text \<open>A bar whose four prices are the same.\<close>

definition flat_bar :: "int \<Rightarrow> real \<Rightarrow> bar" where
  "flat_bar d c =
     \<lparr>date = d, open_price = Finite c, high = Finite c, low = Finite c, close = Finite c,
      volume = 1000, dividends = Finite 0, stock_splits = Finite 0\<rparr>"

text \<open>A classifier that learns nothing and gives every row the probability \<open>p\<close>.\<close>

definition constant_classifier :: "real \<Rightarrow> unit classifier" where
  "constant_classifier p =
     \<lparr>fit = (\<lambda>m x y. Inr m),
      predict_proba = (\<lambda>m x. Inr (replicate (nrows x) [1 - p, p]))\<rparr>"

text \<open>The frame \<open>backtest\<close> returns, built from rows of date, target and predicted label.\<close>

definition prediction_frame :: "(int \<times> bool \<times> bool) list \<Rightarrow> frame" where
  "prediction_frame rows =
     \<lparr>index = map fst rows,
      columns =
        [(''Target'', IntCol (map (\<lambda>r. if fst (snd r) then 1 else 0) rows)),
         (''Predictions_60%'',
          FloatCol (map (\<lambda>r. Finite (if snd (snd r) then 1 else 0)) rows))]\<rparr>"

text \<open>The two counts of the precision over the rows of a prediction frame.\<close>

definition predicted_positive :: "(int \<times> bool \<times> bool) list \<Rightarrow> nat" where
  "predicted_positive rows = length (filter (\<lambda>r. snd (snd r)) rows)"

definition true_positive :: "(int \<times> bool \<times> bool) list \<Rightarrow> nat" where
  "true_positive rows = length (filter (\<lambda>r. fst (snd r) \<and> snd (snd r)) rows)"

section \<open>Notions used in the statements and proofs\<close>

text \<open>
  The frame \<open>predict\<close> returns for the test rows from \<open>i\<close> on: the index and the
  targets of these rows, and one label, 0 or 1, for each.
\<close>

definition window_frame :: "frame \<Rightarrow> nat \<Rightarrow> nat \<Rightarrow> frame \<Rightarrow> bool" where
  "window_frame data step i f \<longleftrightarrow>
     (\<exists>target labels.
        getitem ''Target'' (iloc i (i + step) data) = Inr target
      \<and> length labels = nrows (iloc i (i + step) data)
      \<and> list_all (\<lambda>l. l = 0 \<or> l = 1) labels
      \<and> f = \<lparr>index = index (iloc i (i + step) data),
               columns = [(''Target'', target),
                          (''Predictions_60%'', FloatCol (map Finite labels))]\<rparr>)"

text \<open>A frame with the two columns of a prediction frame.\<close>

definition two_columns :: "frame \<Rightarrow> bool" where
  "two_columns f \<longleftrightarrow> map fst (columns f) = [''Target'', ''Predictions_60%'']"




text \<open>A frame of \<open>n\<close> rows with a Close and a Target column, dated 0, 1, 2, ...\<close>

definition flat_frame :: "nat \<Rightarrow> frame" where
  "flat_frame n =
     \<lparr>index = map int [0..<n],
      columns = [(''Close'', FloatCol (replicate n (Finite 1))),
                 (''Target'', IntCol (replicate n 1))]\<rparr>"

text \<open>The values of the prediction column of a frame.\<close>

definition labels_of :: "frame \<Rightarrow> float64 list" where
  "labels_of f = floats_of (column_or_nan ''Predictions_60%'' f)"

text \<open>
  A classifier that learns the share of the label 1 in its training labels and gives every
  row that probability.
\<close>

definition share_classifier :: "real classifier" where
  "share_classifier =
     \<lparr>fit = (\<lambda>m x y. Inr (real (length (filter (\<lambda>v. v = Finite 1) (floats_of y)))
                           / real (col_len y))),
      predict_proba = (\<lambda>m x. Inr (replicate (nrows x) [1 - m, m]))\<rparr>"

text \<open>
  Two histories that agree on the first row and on the close of the second, and the
  frames the backtester returns for them.
\<close>

definition history_a :: frame where
  "history_a =
     \<lparr>index = [0, 1, 2, 3],
      columns = [(''Close'', FloatCol [Finite 1, Finite 2, Finite 3, Finite 4]),
                 (''Target'', IntCol [1, 1, 1, 0])]\<rparr>"

definition history_b :: frame where
  "history_b =
     \<lparr>index = [0, 1, 2, 3],
      columns = [(''Close'', FloatCol [Finite 1, Finite 2, Finite 1, Finite 0]),
                 (''Target'', IntCol [1, 0, 0, 0])]\<rparr>"

definition labels_a :: frame where
  "labels_a =
     \<lparr>index = [1, 2, 3],
      columns = [(''Target'', IntCol [1, 1, 0]),
                 (''Predictions_60%'', FloatCol [Finite 1, Finite 1, Finite 1])]\<rparr>"

definition labels_b :: frame where
  "labels_b =
     \<lparr>index = [1, 2, 3],
      columns = [(''Target'', IntCol [0, 0, 0]),
                 (''Predictions_60%'', FloatCol [Finite 1, Finite 0, Finite 0])]\<rparr>"

text \<open>The ratio column of a benchmark, from the closes.\<close>

definition ratio_of :: "nat \<Rightarrow> float64 list \<Rightarrow> float64 list" where
  "ratio_of h cs = div_columns cs (rolling_mean h cs)"

text \<open>The cleaned frame after the loop of \<open>add_predictors\<close>: six columns more.\<close>

definition with_ratios :: "int list \<Rightarrow> float64 list \<Rightarrow> float64 list \<Rightarrow> int list \<Rightarrow> frame" where
  "with_ratios ds cs ts gs =
     \<lparr>index = ds,
      columns = [(''Close'', FloatCol cs), (''Tomorrow'', FloatCol ts), (''Target'', IntCol gs),
                 (''Close_Ratio_2'', FloatCol (ratio_of 2 cs)),
                 (''Close_Ratio_5'', FloatCol (ratio_of 5 cs)),
                 (''Close_Ratio_21'', FloatCol (ratio_of 21 cs)),
                 (''Close_Ratio_63'', FloatCol (ratio_of 63 cs)),
                 (''Close_Ratio_252'', FloatCol (ratio_of 252 cs)),
                 (''Close_Ratio_1260'', FloatCol (ratio_of 1260 cs))]\<rparr>"

definition ratio_names :: "string list" where
  "ratio_names = [''Close_Ratio_2'', ''Close_Ratio_5'', ''Close_Ratio_21'', ''Close_Ratio_63'',
                  ''Close_Ratio_252'', ''Close_Ratio_1260'']"

text \<open>The flags of the rows \<open>dropna\<close> keeps in the frame with the ratio columns.\<close>

definition kept :: "float64 list \<Rightarrow> bool list" where
  "kept cs =
     map (\<lambda>k. \<not> isna (cs ! k) \<and> \<not> isna (ratio_of 2 cs ! k) \<and> \<not> isna (ratio_of 5 cs ! k)
            \<and> \<not> isna (ratio_of 21 cs ! k) \<and> \<not> isna (ratio_of 63 cs ! k)
            \<and> \<not> isna (ratio_of 252 cs ! k) \<and> \<not> isna (ratio_of 1260 cs ! k))
       [0..<length cs]"

text \<open>A positive number: not NaN, not an infinity.\<close>

definition positive :: "float64 \<Rightarrow> bool" where
  "positive v = (case v of Finite c \<Rightarrow> 0 < c | _ \<Rightarrow> False)"

text \<open>Bars on consecutive days from day 19000 on, with closes 100, 101, 102, ...\<close>

definition rising_bars :: "nat \<Rightarrow> bar list" where
  "rising_bars n = map (\<lambda>k. flat_bar (19000 + int k) (100 + real k)) [0..<n]"

text \<open>The frames of the pipeline for a history of two bars.\<close>

definition two_day_series :: frame where
  "two_day_series =
     \<lparr>index = [19000, 19001],
      columns = [(''Close'', FloatCol [Finite 10, Finite 11]),
                 (''Tomorrow'', FloatCol [Finite 11, NaN]),
                 (''Target'', IntCol [1, 0])]\<rparr>"

definition two_day_ratios :: frame where
  "two_day_ratios =
     \<lparr>index = [19000, 19001],
      columns = [(''Close'', FloatCol [Finite 10, Finite 11]),
                 (''Tomorrow'', FloatCol [Finite 11, NaN]),
                 (''Target'', IntCol [1, 0]),
                 (''Close_Ratio_2'', FloatCol [NaN, Finite (22 / 21)]),
                 (''Close_Ratio_5'', FloatCol [NaN, NaN]),
                 (''Close_Ratio_21'', FloatCol [NaN, NaN]),
                 (''Close_Ratio_63'', FloatCol [NaN, NaN]),
                 (''Close_Ratio_252'', FloatCol [NaN, NaN]),
                 (''Close_Ratio_1260'', FloatCol [NaN, NaN])]\<rparr>"

definition no_features :: frame where
  "no_features =
     \<lparr>index = [],
      columns = [(''Close'', FloatCol []), (''Tomorrow'', FloatCol []), (''Target'', IntCol []),
                 (''Close_Ratio_2'', FloatCol []), (''Close_Ratio_5'', FloatCol []),
                 (''Close_Ratio_21'', FloatCol []), (''Close_Ratio_63'', FloatCol []),
                 (''Close_Ratio_252'', FloatCol []), (''Close_Ratio_1260'', FloatCol [])]\<rparr>"

section \<open>Basic facts\<close>

lemma and_then_simps [simp]:
  "and_then (Inr v) f = f v" "and_then (Inl e) f = Inl e"
  by (simp_all add: and_then_def)

lemma and_then_Inr_iff:
  "and_then r f = Inr y \<longleftrightarrow> (\<exists>v. r = Inr v \<and> f v = Inr y)"
  by (cases r) simp_all

section \<open>Properties of clean\_data\<close>

text \<open>On the provider's frame \<open>clean_data\<close> never raises, and both frames can be written out.\<close>

lemma clean_data_bars:
  "clean_data (frame_of_bars bs) =
     Inr (\<lparr>index = map date bs,
           columns = [(''Close'', FloatCol (map close bs)),
                      (''Tomorrow'', FloatCol (tomorrow_of bs)),
                      (''Target'', IntCol (target_of bs))]\<rparr>,
          \<lparr>index = drop (floor_pos bs) (map date bs),
           columns = [(''Close'', FloatCol (drop (floor_pos bs) (map close bs))),
                      (''Tomorrow'', FloatCol (drop (floor_pos bs) (tomorrow_of bs))),
                      (''Target'', IntCol (drop (floor_pos bs) (target_of bs)))]\<rparr>)"
  by (simp add: clean_data_def frame_of_bars_def delitem_def getitem_def setitem_def
      loc_from_def iloc_def nrows_def tomorrow_of_def target_of_def floor_pos_def
      shift_back_def gt_astype_int_def)

lemma length_tomorrow_of [simp]: "length (tomorrow_of bs) = length bs"
  by (cases bs) (simp_all add: tomorrow_of_def shift_back_def)

lemma length_target_of [simp]: "length (target_of bs) = length bs"
  by (simp add: target_of_def gt_astype_int_def)

lemma last_tomorrow_of: "bs \<noteq> [] \<Longrightarrow> last (tomorrow_of bs) = NaN"
  by (simp add: tomorrow_of_def shift_back_def)

lemma last_target_of: "bs \<noteq> [] \<Longrightarrow> last (target_of bs) = 0"
proof -
  assume ne: "bs \<noteq> []"
  then have n: "0 < length bs" by simp
  have "target_of bs \<noteq> []"
    using n by (metis length_target_of length_greater_0_conv)
  then have "last (target_of bs) = target_of bs ! (length bs - 1)"
    by (simp add: last_conv_nth)
  also have "\<dots> =
      (if fgt (tomorrow_of bs ! (length bs - 1)) (map close bs ! (length bs - 1)) then 1 else 0)"
    using n by (simp add: target_of_def gt_astype_int_def)
  also have "tomorrow_of bs ! (length bs - 1) = last (tomorrow_of bs)"
    using n by (metis last_conv_nth length_tomorrow_of length_greater_0_conv)
  finally show ?thesis using ne by (simp add: last_tomorrow_of)
qed

lemma floor_pos_le: "floor_pos bs \<le> length bs"
  unfolding floor_pos_def using length_takeWhile_le [of _ "map date bs"] by simp

lemma dropWhile_sorted_key:
  "sorted (map f xs) \<Longrightarrow> dropWhile (\<lambda>x. f x < d) xs = filter (\<lambda>x. d \<le> (f x :: int)) xs"
proof (induction xs)
  case Nil
  then show ?case by simp
next
  case (Cons x xs)
  show ?case
  proof (cases "f x < d")
    case True
    with Cons show ?thesis by simp
  next
    case False
    with Cons.prems have "\<forall>y \<in> set xs. d \<le> f y" by auto
    then have "filter (\<lambda>x. d \<le> f x) xs = xs" by (simp add: filter_id_conv)
    with False show ?thesis by simp
  qed
qed

lemma drop_floor_pos: "drop (floor_pos bs) bs = dropWhile (\<lambda>b. date b < floor_date) bs"
  by (simp add: floor_pos_def takeWhile_map dropWhile_eq_drop comp_def)

text \<open>
  C10. For every bar sequence in ascending date order \<open>clean_data\<close> returns, and when
  the frame returned has a row, its last row has Tomorrow = NaN and Target = 0: the
  comparison of NaN with the close is false and is cast to the integer 0.
\<close>

theorem clean_data_last_target:
  assumes "sorted (map date bs)"
  shows "\<exists>d out tom ts. clean_data (frame_of_bars bs) = Inr (d, out)
     \<and> getitem ''Tomorrow'' out = Inr (FloatCol tom) \<and> getitem ''Target'' out = Inr (IntCol ts)
     \<and> length tom = nrows out \<and> length ts = nrows out
     \<and> (0 < nrows out \<longrightarrow> last tom = NaN \<and> last ts = 0)"
proof -
  have "floor_pos bs < length bs \<Longrightarrow> bs \<noteq> []" by auto
  then show ?thesis
    by (simp add: clean_data_bars getitem_def nrows_def last_tomorrow_of last_target_of)
qed

theorem clean_data_last_target_witness:
  "sorted (map date [flat_bar 19000 10, flat_bar 19001 11])
   \<and> (\<exists>d out tom ts.
     clean_data (frame_of_bars [flat_bar 19000 10, flat_bar 19001 11]) = Inr (d, out)
     \<and> getitem ''Tomorrow'' out = Inr (FloatCol tom) \<and> getitem ''Target'' out = Inr (IntCol ts)
     \<and> nrows out = 2 \<and> last tom = NaN \<and> ts = [1, 0] \<and> last ts = 0)"
proof -
  let ?bs = "[flat_bar 19000 10, flat_bar 19001 11]"
  have s: "sorted (map date ?bs)" by (simp add: flat_bar_def)
  let ?f = "\<lparr>index = [19000, 19001],
             columns = [(''Close'', FloatCol [Finite 10, Finite 11]),
                        (''Tomorrow'', FloatCol [Finite 11, NaN]),
                        (''Target'', IntCol [1, 0])]\<rparr>"
  obtain d out tom ts where h: "clean_data (frame_of_bars ?bs) = Inr (d, out)"
     "getitem ''Tomorrow'' out = Inr (FloatCol tom)" "getitem ''Target'' out = Inr (IntCol ts)"
     "0 < nrows out \<longrightarrow> last tom = NaN \<and> last ts = 0"
    using clean_data_last_target [OF s] by auto
  have e: "clean_data (frame_of_bars ?bs) = Inr (?f, ?f)"
    by (simp add: clean_data_def frame_of_bars_def delitem_def getitem_def setitem_def
        loc_from_def iloc_def nrows_def flat_bar_def floor_date_def
        shift_back_def gt_astype_int_def)
  from h(1) [unfolded e] have out: "out = ?f" by auto
  from h(3) out have ts: "ts = [1, 0]" by (simp add: getitem_def)
  from out have n: "nrows out = 2" by (simp add: nrows_def)
  with h(4) have "last tom = NaN \<and> last ts = 0" by simp
  with h n ts s show ?thesis by blast
qed

text \<open>
  C5, as the program has it. \<open>clean_data\<close> has no check of the number of bars: for
  every bar sequence in ascending date order it returns, and the frame returned holds
  exactly the bars dated 2000-01-01 or later, however few.
\<close>

theorem clean_data_returns_any_length:
  assumes "sorted (map date bs)"
  shows "\<exists>d out. clean_data (frame_of_bars bs) = Inr (d, out)
     \<and> index out = map date (filter (\<lambda>b. floor_date \<le> date b) bs)
     \<and> getitem ''Close'' out = Inr (FloatCol (map close (filter (\<lambda>b. floor_date \<le> date b) bs)))
     \<and> nrows out = length (filter (\<lambda>b. floor_date \<le> date b) bs)"
proof -
  have k: "drop (floor_pos bs) bs = filter (\<lambda>b. floor_date \<le> date b) bs"
    using assms by (simp add: drop_floor_pos dropWhile_sorted_key)
  have i: "drop (floor_pos bs) (map date bs) = map date (filter (\<lambda>b. floor_date \<le> date b) bs)"
    by (simp only: drop_map k)
  have c: "drop (floor_pos bs) (map close bs) = map close (filter (\<lambda>b. floor_date \<le> date b) bs)"
    by (simp only: drop_map k)
  have n: "length bs - floor_pos bs = length (filter (\<lambda>b. floor_date \<le> date b) bs)"
    using arg_cong [OF k, of length] by simp
  show ?thesis
    by (simp add: clean_data_bars getitem_def nrows_def i c n)
qed

theorem clean_data_returns_any_length_witness:
  "sorted (map date [flat_bar 10000 5, flat_bar 19000 10])
   \<and> (\<exists>d out. clean_data (frame_of_bars [flat_bar 10000 5, flat_bar 19000 10]) = Inr (d, out)
        \<and> index out = [19000] \<and> getitem ''Close'' out = Inr (FloatCol [Finite 10])
        \<and> nrows out = 1)"
proof -
  let ?bs = "[flat_bar 10000 5, flat_bar 19000 10]"
  have s: "sorted (map date ?bs)" by (simp add: flat_bar_def)
  have f: "filter (\<lambda>b. floor_date \<le> date b) ?bs = [flat_bar 19000 10]"
    by (simp add: flat_bar_def floor_date_def)
  obtain d out where h: "clean_data (frame_of_bars ?bs) = Inr (d, out)"
     "index out = map date (filter (\<lambda>b. floor_date \<le> date b) ?bs)"
     "getitem ''Close'' out = Inr (FloatCol (map close (filter (\<lambda>b. floor_date \<le> date b) ?bs)))"
     "nrows out = length (filter (\<lambda>b. floor_date \<le> date b) ?bs)"
    using clean_data_returns_any_length [OF s] by auto
  from h(2,3,4) have "index out = [19000] \<and> getitem ''Close'' out = Inr (FloatCol [Finite 10])
      \<and> nrows out = 1"
    unfolding f by (simp add: flat_bar_def)
  with h(1) s show ?thesis by blast
qed

text \<open>
  A series of one bar is cleaned without an error: the frame returned has that one row,
  labelled 0.
\<close>

theorem clean_data_single_bar:
  "clean_data (frame_of_bars [flat_bar 19000 10]) =
     Inr (\<lparr>index = [19000],
           columns = [(''Close'', FloatCol [Finite 10]), (''Tomorrow'', FloatCol [NaN]),
                      (''Target'', IntCol [0])]\<rparr>,
          \<lparr>index = [19000],
           columns = [(''Close'', FloatCol [Finite 10]), (''Tomorrow'', FloatCol [NaN]),
                      (''Target'', IntCol [0])]\<rparr>)"
  by (simp add: clean_data_def frame_of_bars_def delitem_def getitem_def setitem_def
      loc_from_def iloc_def nrows_def flat_bar_def floor_date_def
      shift_back_def gt_astype_int_def)

section \<open>The threshold\<close>

lemma cutoff_map:
  "cutoff t ps = map (\<lambda>p. if t \<le> p \<and> t \<le> 1 then 1 else 0) ps"
  by (auto simp add: cutoff_def assign_where_def Let_def)

lemma length_filter_mono:
  "(\<And>x. x \<in> set xs \<Longrightarrow> P x \<Longrightarrow> Q x) \<Longrightarrow> length (filter P xs) \<le> length (filter Q xs)"
  by (induction xs) auto

text \<open>
  C7. The two assignments of \<open>predict\<close> with the cutoff 0.60 label a probability 1 when
  it is at least 0.60 and 0 otherwise; the boundary value 0.60 is labelled 1.
\<close>

theorem preds_60_threshold:
  "preds_60 ps = map (\<lambda>p. if 0.60 \<le> p then 1 else 0) ps \<and> preds_60 [0.60] = [1]"
  by (simp add: preds_60_def cutoff_map)

theorem preds_60_threshold_witness:
  "preds_60 [0.59, 0.60, 0.61, 0, 1] = [0, 1, 1, 0, 1]"
  using preds_60_threshold [of "[0.59, 0.60, 0.61, 0, 1]"] by simp

text \<open>
  C9. With the cutoff as an argument, every decision is 0 or 1, and under the higher of
  two cutoffs each decision is at most the decision under the lower one: raising the
  cutoff turns a 1 into a 0 and never a 0 into a 1. So the higher cutoff gives at most as
  many 1-decisions, in particular 0.60 against 0.50.
\<close>

theorem cutoff_monotone:
  assumes "t1 \<le> t2"
  shows "list_all2 (\<lambda>hi lo. (hi = 0 \<or> hi = 1) \<and> (lo = 0 \<or> lo = 1) \<and> hi \<le> lo)
           (cutoff t2 ps) (cutoff t1 ps)
         \<and> length (filter (\<lambda>d. d = 1) (cutoff t2 ps))
             \<le> length (filter (\<lambda>d. d = 1) (cutoff t1 ps))
         \<and> length (filter (\<lambda>d. d = 1) (cutoff 0.60 ps))
             \<le> length (filter (\<lambda>d. d = 1) (cutoff 0.50 ps))"
proof -
  have a: "list_all2 (\<lambda>hi lo. (hi = 0 \<or> hi = 1) \<and> (lo = 0 \<or> lo = 1) \<and> hi \<le> lo)
           (cutoff t2 ps) (cutoff t1 ps)"
    using assms by (auto simp add: cutoff_map list_all2_conv_all_nth)
  have b: "length (filter (\<lambda>d. d = 1) (cutoff u ps))
             \<le> length (filter (\<lambda>d. d = 1) (cutoff l ps))"
    if "l \<le> u" for l u :: real
    using that by (auto simp add: cutoff_map filter_map comp_def intro!: length_filter_mono)
  show ?thesis using a b [OF assms] b [of "0.50" "0.60"] by simp
qed

theorem cutoff_monotone_witness:
  "(0.50 :: real) \<le> 0.60
   \<and> cutoff 0.60 [0.55, 0.7, 0.2] = [0, 1, 0] \<and> cutoff 0.50 [0.55, 0.7, 0.2] = [1, 1, 0]
   \<and> list_all2 (\<lambda>hi lo. (hi = 0 \<or> hi = 1) \<and> (lo = 0 \<or> lo = 1) \<and> hi \<le> lo)
        (cutoff 0.60 [0.55, 0.7, 0.2]) (cutoff 0.50 [0.55, 0.7, 0.2])
   \<and> length (filter (\<lambda>d. d = 1) (cutoff 0.60 [0.55, 0.7, 0.2]))
       \<le> length (filter (\<lambda>d. d = 1) (cutoff 0.50 [0.55, 0.7, 0.2]))"
proof -
  have h: "(0.50 :: real) \<le> 0.60" by simp
  have c: "cutoff 0.60 [0.55, 0.7, 0.2] = [0, 1, 0]" "cutoff 0.50 [0.55, 0.7, 0.2] = [1, 1, 0]"
    by (simp_all add: cutoff_def assign_where_def)
  have r: "list_all2 (\<lambda>hi lo. (hi = 0 \<or> hi = 1) \<and> (lo = 0 \<or> lo = 1) \<and> hi \<le> lo)
        (cutoff 0.60 [0.55, 0.7, 0.2]) (cutoff 0.50 [0.55, 0.7, 0.2])
   \<and> length (filter (\<lambda>d. d = 1) (cutoff 0.60 [0.55, 0.7, 0.2]))
       \<le> length (filter (\<lambda>d. d = 1) (cutoff 0.50 [0.55, 0.7, 0.2]))"
    using cutoff_monotone [OF h, of "[0.55, 0.7, 0.2]"] by blast
  from h c r show ?thesis by blast
qed

section \<open>The precision of the route\<close>

lemma zip_map_same: "zip (map f xs) (map g xs) = map (\<lambda>x. (f x, g x)) xs"
  by (induction xs) simp_all

lemma precision_score_rows:
  assumes "rows \<noteq> []"
  shows "precision_score (IntCol (map (\<lambda>r. if fst (snd r) then 1 else 0) rows))
       (FloatCol (map (\<lambda>r. Finite (if snd (snd r) then 1 else 0)) rows)) =
     Inr (if predicted_positive rows = 0 then 0
          else real (true_positive rows) / real (predicted_positive rows))"
proof -
  let ?ts = "map (\<lambda>r. Finite (of_int (if fst (snd r) then 1 else 0))) rows"
  let ?ps = "map (\<lambda>r. Finite (if snd (snd r) then 1 else 0)) rows"
  have s: "set (?ts @ ?ps) \<subseteq> {Finite 0, Finite 1}"
    by (auto split: if_splits)
  then have b: "list_all whole (?ts @ ?ps)"
    by (auto simp add: list_all_iff whole_def)
  have "card (set (?ts @ ?ps)) \<le> card {Finite 0, Finite (1 :: real)}"
    using s by (intro card_mono) simp_all
  then have u: "length (remdups (?ts @ ?ps)) \<le> 2"
    by (simp add: length_remdups_card_conv)
  have v: "\<not> 2 \<le> length (remdups (?ts @ ?ps))" if "Finite 1 \<notin> set (?ts @ ?ps)"
  proof -
    from s that have "set (?ts @ ?ps) \<subseteq> {Finite 0}" by blast
    then have "card (set (?ts @ ?ps)) \<le> card {Finite (0 :: real)}"
      by (intro card_mono) simp_all
    then show ?thesis by (simp add: length_remdups_card_conv)
  qed
  have p: "length (filter (\<lambda>p. p = Finite 1) ?ps) = predicted_positive rows"
    unfolding predicted_positive_def filter_map comp_def
    by (simp cong: filter_cong)
  have "filter (\<lambda>(t, p). t = Finite 1 \<and> p = Finite 1) (zip ?ts ?ps)
      = map (\<lambda>r. (Finite (of_int (if fst (snd r) then 1 else 0)),
                   Finite (if snd (snd r) then 1 else 0)))
          (filter (\<lambda>r. fst (snd r) \<and> snd (snd r)) rows)"
    unfolding zip_map_same filter_map comp_def
    by (rule arg_cong [where f = "map _"], rule filter_cong) auto
  then have c: "length (filter (\<lambda>(t, p). t = Finite 1 \<and> p = Finite 1) (zip ?ts ?ps))
      = true_positive rows"
    by (simp add: true_positive_def)
  have e: "?ts \<noteq> []" using assms by simp
  have "precision_score (IntCol (map (\<lambda>r. if fst (snd r) then 1 else 0) rows)) (FloatCol ?ps)
      = (let ts = ?ts; ps = ?ps; present_labels = remdups (ts @ ps)
         in if length ts \<noteq> length ps \<or> ts = [] then Inl ValueError
            else if \<not> list_all whole (ts @ ps) then Inl ValueError
            else if 2 < length present_labels then Inl ValueError
            else if Finite 1 \<notin> set present_labels \<and> 2 \<le> length present_labels
              then Inl ValueError
            else
              let predicted = length (filter (\<lambda>p. p = Finite 1) ps);
                  correct = length (filter (\<lambda>(t, p). t = Finite 1 \<and> p = Finite 1) (zip ts ps))
              in Inr (if predicted = 0 then 0 else real correct / real predicted))"
    by (simp add: precision_score_def comp_def)
  also have "\<dots> = Inr (if predicted_positive rows = 0 then 0
          else real (true_positive rows) / real (predicted_positive rows))"
    unfolding Let_def using b u v e p c
    by (simp only: set_remdups length_map simp_thms if_False if_True not_less [symmetric])
       auto
  finally show ?thesis .
qed

text \<open>
  C4, as the program has it. The route raises IndexError for an empty prediction frame.
  Otherwise it reports a score: 0 when no row is predicted 1 (no error is raised), and
  else the number of rows with target 1 and prediction 1 divided by the number of rows with
  prediction 1 (in percent).
\<close>

theorem api_buy_stock_precision:
  "api_buy_stock (prediction_frame rows) =
     (if rows = [] then Inl IndexError
      else Inr (if snd (snd (last rows)) then ''Yes'' else ''No'',
                (if predicted_positive rows = 0 then 0
                 else real (true_positive rows) / real (predicted_positive rows)) * 100))"
proof (cases "rows = []")
  case True
  then show ?thesis
    by (simp add: api_buy_stock_def last_row_second_def prediction_frame_def nrows_def)
next
  case False
  then have l: "last_row_second (prediction_frame rows) =
      Inr (Finite (if snd (snd (last rows)) then 1 else 0))"
    by (simp add: last_row_second_def prediction_frame_def nrows_def last_map)
  show ?thesis
    using False
    by (simp add: api_buy_stock_def l)
       (simp add: prediction_frame_def getitem_def precision_score_rows)
qed

theorem api_buy_stock_precision_witness:
  "api_buy_stock (prediction_frame [(19000, True, True), (19001, False, True), (19002, True, False)])
     = Inr (''No'', 50)"
  using api_buy_stock_precision
          [of "[(19000, True, True), (19001, False, True), (19002, True, False)]"]
  by (simp add: predicted_positive_def true_positive_def)

text \<open>With no positive prediction the route reports the score 0 and raises nothing.\<close>

theorem api_buy_stock_no_positive:
  "api_buy_stock (prediction_frame [(19000, True, False), (19001, False, False)])
     = Inr (''No'', 0)"
  by (simp add: api_buy_stock_def last_row_second_def prediction_frame_def nrows_def
      getitem_def precision_score_def whole_def Let_def)

section \<open>Properties of the backtester\<close>

declare py_range.simps [simp del]

lemma py_range_empty: "stop \<le> i \<Longrightarrow> py_range i stop step = []"
  by (simp add: py_range.simps)

lemma py_range_step: "0 < step \<Longrightarrow> i < stop \<Longrightarrow> py_range i stop step = i # py_range (i + step) stop step"
  by (subst py_range.simps) simp

lemma py_range_bounds: "j \<in> set (py_range i stop step) \<Longrightarrow> i \<le> j \<and> j < stop \<and> 0 < step"
proof (induction i stop step rule: py_range.induct)
  case (1 i stop step)
  show ?case
  proof (cases "step = 0 \<or> stop \<le> i")
    case True
    with "1.prems" show ?thesis by (simp add: py_range.simps)
  next
    case False
    with "1.prems" have "j = i \<or> j \<in> set (py_range (i + step) stop step)"
      by (subst (asm) py_range.simps) simp
    with False "1.IH" show ?thesis by auto
  qed
qed

lemma concat_windows:
  "0 < step \<Longrightarrow>
     concat (map (\<lambda>i. take step (drop i xs)) (py_range start (length xs) step)) = drop start xs"
proof (induction start "length xs" step rule: py_range.induct)
  case (1 i step)
  show ?case
  proof (cases "length xs \<le> i")
    case True
    then show ?thesis by (simp add: py_range_empty)
  next
    case False
    then have lt: "i < length xs" by simp
    have "take step (drop i xs) @ drop (i + step) xs = drop i xs"
      by (metis add.commute append_take_drop_id drop_drop)
    with "1.hyps" "1.prems" lt show ?thesis
      by (simp add: py_range_step)
  qed
qed


lemma nrows_iloc: "nrows (iloc a b f) = min (b - a) (nrows f - a)"
  by (simp add: nrows_def iloc_def)

lemma index_iloc: "index (iloc a b f) = take (b - a) (drop a (index f))"
  by (simp add: iloc_def)

lemma map_of_slices:
  "map_of (map (\<lambda>(name, c). (name, col_slice a b c)) cs) n = map_option (col_slice a b) (map_of cs n)"
  by (induction cs) auto

lemma getitem_iloc:
  "getitem n (iloc a b f) = (case getitem n f of Inl e \<Rightarrow> Inl e | Inr c \<Rightarrow> Inr (col_slice a b c))"
  by (simp add: getitem_def iloc_def map_of_slices split: option.split)





lemma length_preds_60 [simp]: "length (preds_60 ps) = length ps"
  by (simp add: preds_60_def cutoff_def assign_where_def)

lemma second_column_length: "second_column proba = Inr preds \<Longrightarrow> length preds = length proba"
  by (auto simp add: second_column_def split: if_splits)

text \<open>What a successful call of predict has done.\<close>

lemma predict_Inr:
  assumes "predict train test ps clf m = Inr (c, m')"
  shows "\<exists>train_x train_y test_x proba preds target.
           getitems ps train = Inr train_x \<and> getitem ''Target'' train = Inr train_y
         \<and> fit clf m train_x train_y = Inr m'
         \<and> getitems ps test = Inr test_x \<and> predict_proba clf m' test_x = Inr proba
         \<and> second_column proba = Inr preds \<and> length preds = nrows test
         \<and> getitem ''Target'' test = Inr target
         \<and> c = \<lparr>index = index test,
                 columns = [(''Target'', target),
                            (''Predictions_60%'', FloatCol (map Finite (preds_60 preds)))]\<rparr>"
  using assms unfolding predict_def
  by (auto simp add: and_then_Inr_iff split: if_splits)

lemma preds_60_binary: "list_all (\<lambda>l. l = 0 \<or> l = 1) (preds_60 ps)"
  by (auto simp add: preds_60_def cutoff_map list_all_iff)

lemma predict_window_frame:
  "predict train (iloc i (i + step) data) ps clf m = Inr (c, m') \<Longrightarrow> window_frame data step i c"
proof -
  assume "predict train (iloc i (i + step) data) ps clf m = Inr (c, m')"
  from predict_Inr [OF this] obtain preds target where
      h: "length preds = nrows (iloc i (i + step) data)"
         "getitem ''Target'' (iloc i (i + step) data) = Inr target"
         "c = \<lparr>index = index (iloc i (i + step) data),
                columns = [(''Target'', target),
                           (''Predictions_60%'', FloatCol (map Finite (preds_60 preds)))]\<rparr>"
    by blast
  note h23 = h(2,3)
  have "length (preds_60 preds) = nrows (iloc i (i + step) data)"
    using h(1) by simp
  moreover have "list_all (\<lambda>l. l = 0 \<or> l = 1) (preds_60 preds)"
    by (rule preds_60_binary)
  ultimately show ?thesis using h23 unfolding window_frame_def by blast
qed

lemma backtest_loop_append:
  "backtest_loop data clf ps step (xs @ ys) m acc =
     and_then (backtest_loop data clf ps step xs m acc)
       (\<lambda>(acc', m'). backtest_loop data clf ps step ys m' acc')"
proof (induction xs arbitrary: m acc)
  case Nil
  then show ?case by simp
next
  case (Cons i xs)
  show ?case
  proof (cases "predict (iloc 0 i data) (iloc i (i + step) data) ps clf m")
    case (Inl e)
    then show ?thesis by (simp add: Let_def)
  next
    case (Inr r)
    then show ?thesis by (cases r) (simp add: Let_def Cons.IH)
  qed
qed

lemma backtest_loop_frames:
  "backtest_loop data clf ps step js m acc = Inr (out, m') \<Longrightarrow>
     \<exists>new. out = acc @ new \<and> list_all2 (window_frame data step) js new"
proof (induction js arbitrary: m acc)
  case Nil
  then show ?case by simp
next
  case (Cons i js)
  from Cons.prems obtain c m1 where
      p: "predict (iloc 0 i data) (iloc i (i + step) data) ps clf m = Inr (c, m1)"
      and r: "backtest_loop data clf ps step js m1 (acc @ [c]) = Inr (out, m')"
    by (auto simp add: Let_def and_then_Inr_iff)
  from Cons.IH [OF r] obtain new where
      n: "out = (acc @ [c]) @ new" "list_all2 (window_frame data step) js new"
    by blast
  from p have "window_frame data step i c" by (rule predict_window_frame)
  with n have "out = acc @ (c # new) \<and> list_all2 (window_frame data step) (i # js) (c # new)"
    by simp
  then show ?case by blast
qed

lemma pd_concat_index: "pd_concat fs = Inr res \<Longrightarrow> index res = concat (map index fs)"
  by (cases fs) (auto simp add: pd_concat_def)

lemma window_frames_index:
  "list_all2 (window_frame data step) js new \<Longrightarrow>
     concat (map index new) = concat (map (\<lambda>i. take step (drop i (index data))) js)"
  by (induction js new rule: list_all2_induct) (auto simp add: window_frame_def index_iloc)

text \<open>With an empty range the list of predictions is empty and pd.concat raises.\<close>

lemma backtest_empty_range:
  "nrows data \<le> start \<Longrightarrow> backtest data clf m ps start step = Inl ValueError"
  by (simp add: backtest_def py_range_empty pd_concat_def)

lemma first_seen_subset: "set (first_seen ns) \<subseteq> set ns"
  by (induction ns) auto

lemma first_seen_two:
  assumes "a \<noteq> b" "set ns \<subseteq> {a, b}"
  shows "first_seen (a # b # ns) = [a, b]"
proof -
  have "set (first_seen ns) \<subseteq> {a, b}"
    using first_seen_subset [of ns] assms(2) by blast
  then have "filter (\<lambda>k. k \<noteq> a) (filter (\<lambda>k. k \<noteq> b) (first_seen ns)) = []"
    by (auto simp add: filter_empty_conv)
  with assms(1) show ?thesis by simp
qed

lemma two_columns_names:
  assumes "\<forall>f \<in> set fs. two_columns f"
  shows "set (concat (map (\<lambda>g. map fst (columns g)) fs)) \<subseteq> {''Target'', ''Predictions_60%''}"
  using assms by (auto simp add: two_columns_def)

lemma pd_concat_two_columns:
  assumes "\<forall>f \<in> set (f0 # fs). two_columns f"
  shows "pd_concat (f0 # fs) =
     Inr \<lparr>index = concat (map index (f0 # fs)),
          columns =
            [(''Target'', foldl col_append (column_or_nan ''Target'' f0)
                            (map (column_or_nan ''Target'') fs)),
             (''Predictions_60%'', foldl col_append (column_or_nan ''Predictions_60%'' f0)
                            (map (column_or_nan ''Predictions_60%'') fs))]\<rparr>"
proof -
  have f0: "map fst (columns f0) = [''Target'', ''Predictions_60%'']"
    using assms by (simp add: two_columns_def)
  have "set (concat (map (\<lambda>g. map fst (columns g)) fs)) \<subseteq> {''Target'', ''Predictions_60%''}"
    using assms by (intro two_columns_names) simp
  then have "first_seen (concat (map (\<lambda>g. map fst (columns g)) (f0 # fs)))
      = [''Target'', ''Predictions_60%'']"
    using first_seen_two [of "''Target''" "''Predictions_60%''"] by (simp add: f0)
  then show ?thesis by (simp add: pd_concat_def)
qed

lemma foldl_col_append_float:
  "foldl col_append (FloatCol a) (map FloatCol bs) = FloatCol (a @ concat bs)"
  by (induction bs arbitrary: a) simp_all

lemma foldl_col_append_int:
  "foldl col_append (IntCol a) (map IntCol bs) = IntCol (a @ concat bs)"
  by (induction bs arbitrary: a) simp_all

lemma window_frame_two_columns: "window_frame data step i f \<Longrightarrow> two_columns f"
  by (auto simp add: window_frame_def two_columns_def)









lemma backtest_Inr:
  assumes "backtest data clf m ps start step = Inr (res, m')"
  shows "0 < step \<and> start < nrows data
       \<and> (\<exists>new. backtest_loop data clf ps step (py_range start (nrows data) step) m [] = Inr (new, m')
               \<and> list_all2 (window_frame data step) (py_range start (nrows data) step) new
               \<and> pd_concat new = Inr res)"
proof -
  from assms have step: "0 < step"
    by (auto simp add: backtest_def split: if_splits)
  have start: "start < nrows data"
  proof (rule ccontr)
    assume "\<not> start < nrows data"
    then have "backtest data clf m ps start step = Inl ValueError"
      by (simp add: backtest_def py_range_empty pd_concat_def)
    with assms show False by simp
  qed
  from assms step obtain new where
      l: "backtest_loop data clf ps step (py_range start (nrows data) step) m [] = Inr (new, m')"
      and c: "pd_concat new = Inr res"
    by (auto simp add: backtest_def and_then_Inr_iff)
  from backtest_loop_frames [OF l]
  have "list_all2 (window_frame data step) (py_range start (nrows data) step) new" by simp
  with step start l c show ?thesis by blast
qed

lemma window_frames_two_columns:
  "list_all2 (window_frame data step) js new \<Longrightarrow> \<forall>f \<in> set new. two_columns f"
  by (induction js new rule: list_all2_induct) (simp_all add: window_frame_two_columns)


lemma buy_stock_two_bars:
  "buy_stock (frame_of_bars [flat_bar 19000 10, flat_bar 19001 11]) (constant_classifier 0.7) ()
     = Inl ValueError"
  by (simp add: buy_stock_def clean_data_def frame_of_bars_def delitem_def getitem_def setitem_def
      loc_from_def iloc_def nrows_def flat_bar_def floor_date_def shift_back_def gt_astype_int_def
      add_predictors_def benchmarks_def rolling_mean_def div_columns_def dropna_except_def
      select_def isna_def isfinite_def ratio_column_def Let_def
      backtest_def py_range.simps pd_concat_def)

text \<open>
  C3. With a start at or beyond the number of rows the range is empty, no prediction is made,
  and \<open>pd.concat\<close> of the empty list raises ValueError: the call does not return an empty
  frame. \<open>buy_stock\<close> reaches this case with a history of two bars (and with every
  history too short for the longest rolling window, see \<open>buy_stock_short_history\<close>): no
  feature row is left and the start is 0.
\<close>

theorem backtest_start_at_end_raises:
  "backtest (flat_frame 3) (constant_classifier 0.7) () [''Close''] 3 63 = Inl ValueError
   \<and> buy_stock (frame_of_bars [flat_bar 19000 10, flat_bar 19001 11])
         (constant_classifier 0.7) () = Inl ValueError"
  using buy_stock_two_bars
  by (simp add: backtest_def flat_frame_def nrows_def py_range.simps pd_concat_def)

lemma py_range_split:
  "i \<in> set (py_range s n step) \<Longrightarrow>
     py_range s n step = py_range s i step @ i # py_range (i + step) n step"
proof (induction s n step rule: py_range.induct)
  case (1 s n step)
  from py_range_bounds [OF "1.prems"] have b: "s \<le> i" "i < n" "0 < step" by simp_all
  show ?case
  proof (cases "s = i")
    case True
    with b show ?thesis by (simp add: py_range_empty py_range_step)
  next
    case False
    with b have lt: "s < i" "s < n" by simp_all
    with b "1.prems" have "i \<in> set (py_range (s + step) n step)"
      using False by (simp add: py_range_step)
    with "1.IH" b lt have "py_range (s + step) n step
        = py_range (s + step) i step @ i # py_range (i + step) n step"
      by simp
    with b lt show ?thesis by (simp add: py_range_step)
  qed
qed

lemma py_range_before:
  "i \<in> set (py_range s n step) \<Longrightarrow> j \<in> set (py_range s i step) \<Longrightarrow> j + step \<le> i"
proof (induction s n step rule: py_range.induct)
  case (1 s n step)
  from py_range_bounds [OF "1.prems"(1)] have b: "s \<le> i" "i < n" "0 < step" by simp_all
  show ?case
  proof (cases "s = i")
    case True
    with "1.prems"(2) show ?thesis by (simp add: py_range_empty)
  next
    case False
    with b have lt: "s < i" "s < n" by simp_all
    with b "1.prems"(1) False have i: "i \<in> set (py_range (s + step) n step)"
      by (simp add: py_range_step)
    from py_range_bounds [OF i] have "s + step \<le> i" by simp
    moreover from "1.prems"(2) b lt have "j = s \<or> j \<in> set (py_range (s + step) i step)"
      by (simp add: py_range_step)
    ultimately show ?thesis using "1.IH" b lt i by auto
  qed
qed

lemma labels_before:
  "i \<in> set (py_range s n step) \<Longrightarrow>
   list_all2 (\<lambda>j ls. length ls = min step (n - j)) (py_range s i step) lss \<Longrightarrow>
     length (concat lss) = i - s"
proof (induction s n step arbitrary: lss rule: py_range.induct)
  case (1 s n step)
  from py_range_bounds [OF "1.prems"(1)] have b: "s \<le> i" "i < n" "0 < step" by simp_all
  show ?case
  proof (cases "s = i")
    case True
    with "1.prems"(2) show ?thesis by (simp add: py_range_empty)
  next
    case False
    with b have lt: "s < i" "s < n" by simp_all
    with b "1.prems"(1) False have i: "i \<in> set (py_range (s + step) n step)"
      by (simp add: py_range_step)
    from py_range_bounds [OF i] have le: "s + step \<le> i" by simp
    from "1.prems"(2) b lt obtain l lss' where
        lss: "lss = l # lss'" "length l = min step (n - s)"
        "list_all2 (\<lambda>j ls. length ls = min step (n - j)) (py_range (s + step) i step) lss'"
      by (auto simp add: py_range_step list_all2_Cons1)
    from "1.IH" [OF _ i lss(3)] b lt have "length (concat lss') = i - (s + step)" by simp
    with lss le b show ?thesis by simp
  qed
qed

lemma col_slice_twice: "b \<le> i \<Longrightarrow> col_slice a b (col_slice 0 i c) = col_slice a b c"
  by (cases c) (simp_all add: drop_take min_def)

lemma iloc_twice: "b \<le> i \<Longrightarrow> iloc a b (iloc 0 i f) = iloc a b f"
  by (simp add: iloc_def drop_take min_def col_slice_twice case_prod_unfold comp_def)

lemma iloc_agree:
  assumes "iloc 0 i d' = iloc 0 i d" "b \<le> i"
  shows "iloc a b d' = iloc a b d"
  using iloc_twice [OF assms(2), of a d'] iloc_twice [OF assms(2), of a d] assms(1) by simp

lemma backtest_loop_agree:
  "\<forall>j \<in> set js. iloc 0 j d' = iloc 0 j d \<and> iloc j (j + step) d' = iloc j (j + step) d \<Longrightarrow>
     backtest_loop d' clf ps step js m acc = backtest_loop d clf ps step js m acc"
proof (induction js arbitrary: m acc)
  case Nil
  then show ?case by simp
next
  case (Cons i js)
  then show ?case
    by (simp add: Let_def cong: sum.case_cong)
qed

lemma predict_agree:
  assumes p: "predict train test ps clf m = Inr (c, m1)"
      and p': "predict train test' ps clf m = Inr (c', m1')"
      and x: "getitems ps test' = getitems ps test"
  shows "m1' = m1 \<and> getitem ''Predictions_60%'' c' = getitem ''Predictions_60%'' c"
proof -
  from predict_Inr [OF p] obtain train_x train_y test_x proba preds target where
      h: "getitems ps train = Inr train_x" "getitem ''Target'' train = Inr train_y"
         "fit clf m train_x train_y = Inr m1"
         "getitems ps test = Inr test_x" "predict_proba clf m1 test_x = Inr proba"
         "second_column proba = Inr preds"
         "c = \<lparr>index = index test,
                 columns = [(''Target'', target),
                            (''Predictions_60%'', FloatCol (map Finite (preds_60 preds)))]\<rparr>"
    by blast
  from predict_Inr [OF p'] obtain train_x' train_y' test_x' proba' preds' target' where
      h': "getitems ps train = Inr train_x'" "getitem ''Target'' train = Inr train_y'"
         "fit clf m train_x' train_y' = Inr m1'"
         "getitems ps test' = Inr test_x'" "predict_proba clf m1' test_x' = Inr proba'"
         "second_column proba' = Inr preds'"
         "c' = \<lparr>index = index test',
                 columns = [(''Target'', target'),
                            (''Predictions_60%'', FloatCol (map Finite (preds_60 preds')))]\<rparr>"
    by blast
  from h(1,2,3) h'(1,2,3) have m: "m1' = m1" by simp
  from h(4) h'(4) x have "test_x' = test_x" by simp
  with m h(5,6) h'(5,6) have "preds' = preds" by simp
  with m h(7) h'(7) show ?thesis by (simp add: getitem_def)
qed

lemma window_frame_labels:
  "window_frame data step i f \<Longrightarrow>
     column_or_nan ''Predictions_60%'' f = FloatCol (labels_of f)
   \<and> getitem ''Predictions_60%'' f = Inr (FloatCol (labels_of f))
   \<and> length (labels_of f) = min step (nrows data - i)
   \<and> index f = take step (drop i (index data))"
  by (auto simp add: window_frame_def labels_of_def column_or_nan_def getitem_def nrows_iloc index_iloc)

lemma foldl_col_append_labels:
  "\<forall>f \<in> set fs. column_or_nan ''Predictions_60%'' f = FloatCol (labels_of f) \<Longrightarrow>
     foldl col_append (FloatCol a) (map (column_or_nan ''Predictions_60%'') fs)
       = FloatCol (a @ concat (map labels_of fs))"
  by (induction fs arbitrary: a) simp_all

lemma pd_concat_labels:
  assumes "list_all2 (window_frame data step) js new" and "pd_concat new = Inr res"
  shows "getitem ''Predictions_60%'' res = Inr (FloatCol (concat (map labels_of new)))"
proof -
  from assms(2) obtain f0 fs where new: "new = f0 # fs"
    by (cases new) (auto simp add: pd_concat_def)
  have two: "\<forall>f \<in> set (f0 # fs). two_columns f"
    using window_frames_two_columns [OF assms(1)] unfolding new by simp
  have l: "\<forall>f \<in> set new. column_or_nan ''Predictions_60%'' f = FloatCol (labels_of f)"
    using assms(1) by (induction js new rule: list_all2_induct) (simp_all add: window_frame_labels)
  then have l0: "column_or_nan ''Predictions_60%'' f0 = FloatCol (labels_of f0)"
    and ls: "\<forall>f \<in> set fs. column_or_nan ''Predictions_60%'' f = FloatCol (labels_of f)"
    unfolding new by simp_all
  have "foldl col_append (column_or_nan ''Predictions_60%'' f0)
          (map (column_or_nan ''Predictions_60%'') fs)
        = FloatCol (concat (map labels_of new))"
    unfolding l0 foldl_col_append_labels [OF ls] new by simp
  with assms(2) pd_concat_two_columns [OF two] show ?thesis
    unfolding new by (auto simp add: getitem_def)
qed

lemma slice_middle:
  "length A = a \<Longrightarrow> length L \<le> s \<Longrightarrow> (length L < s \<Longrightarrow> B = []) \<Longrightarrow>
     take s (drop a (A @ L @ B)) = L"
  by (cases "length L < s") simp_all

lemma window_frames_lengths:
  "list_all2 (window_frame data step) js new \<Longrightarrow>
     list_all2 (\<lambda>j ls. length ls = min step (nrows data - j)) js (map labels_of new)"
  by (induction js new rule: list_all2_induct) (simp_all add: window_frame_labels)

text \<open>The rows of the result for one window, and the calls that produced them.\<close>

lemma backtest_window:
  assumes run: "backtest data clf model ps start step = Inr (res, mf)"
      and i: "i \<in> set (py_range start (nrows data) step)"
  shows "\<exists>o1 m1 c m2.
           backtest_loop data clf ps step (py_range start i step) model [] = Inr (o1, m1)
         \<and> predict (iloc 0 i data) (iloc i (i + step) data) ps clf m1 = Inr (c, m2)
         \<and> getitem ''Predictions_60%'' (iloc (i - start) (i + step - start) res)
             = getitem ''Predictions_60%'' c
         \<and> getitem ''Predictions_60%'' c = Inr (FloatCol (labels_of c))
         \<and> length (labels_of c) = nrows (iloc i (i + step) data)
         \<and> index (iloc (i - start) (i + step - start) res) = index (iloc i (i + step) data)"
proof -
  let ?n = "nrows data"
  let ?pre = "py_range start i step" and ?post = "py_range (i + step) ?n step"
  from py_range_bounds [OF i] have b: "start \<le> i" "i < ?n" "0 < step" by simp_all
  from backtest_Inr [OF run] obtain new where
      l: "backtest_loop data clf ps step (py_range start ?n step) model [] = Inr (new, mf)"
      and frames: "list_all2 (window_frame data step) (py_range start ?n step) new"
      and c: "pd_concat new = Inr res"
    by blast
  have split: "py_range start ?n step = ?pre @ i # ?post"
    using i by (rule py_range_split)
  from l obtain o1 m1 where
      l1: "backtest_loop data clf ps step ?pre model [] = Inr (o1, m1)"
      and l2: "backtest_loop data clf ps step (i # ?post) m1 o1 = Inr (new, mf)"
    unfolding split backtest_loop_append by (auto simp add: and_then_Inr_iff)
  from l2 obtain c1 m2 where
      p: "predict (iloc 0 i data) (iloc i (i + step) data) ps clf m1 = Inr (c1, m2)"
      and l3: "backtest_loop data clf ps step ?post m2 (o1 @ [c1]) = Inr (new, mf)"
    by (auto simp add: Let_def and_then_Inr_iff)
  from backtest_loop_frames [OF l1] have f1: "list_all2 (window_frame data step) ?pre o1"
    by simp
  from backtest_loop_frames [OF l3] obtain rest where
      new: "new = (o1 @ [c1]) @ rest" and f3: "list_all2 (window_frame data step) ?post rest"
    by blast
  from p have fc: "window_frame data step i c1" by (rule predict_window_frame)
  note wc = window_frame_labels [OF fc]
  have A: "length (concat (map labels_of o1)) = i - start"
    using labels_before [OF i window_frames_lengths [OF f1]] .
  have L: "length (labels_of c1) \<le> step" using wc by simp
  have B: "concat (map labels_of rest) = []" if "length (labels_of c1) < step"
  proof -
    from that wc b have "?n \<le> i + step" by simp
    then have "?post = []" by (rule py_range_empty)
    with f3 show ?thesis by simp
  qed
  have col: "getitem ''Predictions_60%'' res
      = Inr (FloatCol (concat (map labels_of o1) @ labels_of c1 @ concat (map labels_of rest)))"
    using pd_concat_labels [OF frames c] by (simp add: new)
  have s: "i + step - start - (i - start) = step" using b by simp
  have g: "getitem ''Predictions_60%'' (iloc (i - start) (i + step - start) res)
      = getitem ''Predictions_60%'' c1"
  proof -
    have "getitem ''Predictions_60%'' (iloc (i - start) (i + step - start) res)
        = Inr (col_slice (i - start) (i + step - start)
            (FloatCol (concat (map labels_of o1) @ labels_of c1 @ concat (map labels_of rest))))"
      by (simp only: getitem_iloc col sum.case)
    also have "col_slice (i - start) (i + step - start)
            (FloatCol (concat (map labels_of o1) @ labels_of c1 @ concat (map labels_of rest)))
        = FloatCol (take step (drop (i - start)
            (concat (map labels_of o1) @ labels_of c1 @ concat (map labels_of rest))))"
      by (simp only: col_slice.simps s)
    also have "\<dots> = FloatCol (labels_of c1)"
      by (simp only: slice_middle [OF A L B])
    finally show ?thesis using wc by simp
  qed
  have "index res = drop start (index data)"
    using pd_concat_index [OF c] window_frames_index [OF frames]
      concat_windows [OF b(3), of "index data" start]
    by (simp add: nrows_def)
  then have x: "index (iloc (i - start) (i + step - start) res) = index (iloc i (i + step) data)"
    using b by (simp add: index_iloc s)
  from wc b have n: "length (labels_of c1) = nrows (iloc i (i + step) data)"
    by (simp add: nrows_iloc)
  from l1 p g wc n x show ?thesis by blast
qed

text \<open>
  C1. Take two runs of the backtester on frames of the same length that agree on every row
  before a window start \<open>i\<close> and are arbitrary from row \<open>i\<close> on. The rounds before
  \<open>i\<close> give the same frames and leave the model in the same state, and the fit of round
  \<open>i\<close> gives the same fitted model in both runs: the model that labels the test rows
  [i, i + step) depends on the rows before \<open>i\<close> only. The rows of the result for the
  window are its rows from \<open>i - start\<close> to \<open>i + step - start\<close>; their labels are
  those of that round, and they are the same in both runs when the feature columns of the
  test rows are the same, whatever the targets of the test rows.
\<close>

theorem backtest_no_lookahead:
  assumes run: "backtest data clf model ps start step = Inr (res, mf)"
      and run': "backtest data' clf model ps start step = Inr (res', mf')"
      and n: "nrows data' = nrows data"
      and i: "i \<in> set (py_range start (nrows data) step)"
      and past: "iloc 0 i data' = iloc 0 i data"
  shows "\<exists>before model_before window window' fitted.
           backtest_loop data clf ps step (py_range start i step) model []
             = Inr (before, model_before)
         \<and> backtest_loop data' clf ps step (py_range start i step) model []
             = Inr (before, model_before)
         \<and> predict (iloc 0 i data) (iloc i (i + step) data) ps clf model_before
             = Inr (window, fitted)
         \<and> predict (iloc 0 i data') (iloc i (i + step) data') ps clf model_before
             = Inr (window', fitted)
         \<and> index (iloc (i - start) (i + step - start) res) = index (iloc i (i + step) data)
         \<and> getitem ''Predictions_60%'' (iloc (i - start) (i + step - start) res)
             = getitem ''Predictions_60%'' window
         \<and> getitem ''Predictions_60%'' (iloc (i - start) (i + step - start) res')
             = getitem ''Predictions_60%'' window'
         \<and> (\<exists>labels. getitem ''Predictions_60%'' window = Inr (FloatCol labels)
               \<and> length labels = nrows (iloc i (i + step) data))
         \<and> (getitems ps (iloc i (i + step) data') = getitems ps (iloc i (i + step) data)
               \<longrightarrow> getitem ''Predictions_60%'' window' = getitem ''Predictions_60%'' window)"
proof -
  from backtest_window [OF run i] obtain o1 m1 c m2 where
      h: "backtest_loop data clf ps step (py_range start i step) model [] = Inr (o1, m1)"
         "predict (iloc 0 i data) (iloc i (i + step) data) ps clf m1 = Inr (c, m2)"
         "getitem ''Predictions_60%'' (iloc (i - start) (i + step - start) res)
             = getitem ''Predictions_60%'' c"
         "getitem ''Predictions_60%'' c = Inr (FloatCol (labels_of c))"
         "length (labels_of c) = nrows (iloc i (i + step) data)"
         "index (iloc (i - start) (i + step - start) res) = index (iloc i (i + step) data)"
    by blast
  from i n have i': "i \<in> set (py_range start (nrows data') step)" by simp
  from backtest_window [OF run' i'] obtain o1' m1' c' m2' where
      h': "backtest_loop data' clf ps step (py_range start i step) model [] = Inr (o1', m1')"
         "predict (iloc 0 i data') (iloc i (i + step) data') ps clf m1' = Inr (c', m2')"
         "getitem ''Predictions_60%'' (iloc (i - start) (i + step - start) res')
             = getitem ''Predictions_60%'' c'"
    by blast
  have "\<forall>j \<in> set (py_range start i step).
          iloc 0 j data' = iloc 0 j data \<and> iloc j (j + step) data' = iloc j (j + step) data"
  proof
    fix j assume j: "j \<in> set (py_range start i step)"
    from py_range_before [OF i j] have le: "j + step \<le> i" .
    then have "j \<le> i" by simp
    with le show "iloc 0 j data' = iloc 0 j data \<and> iloc j (j + step) data' = iloc j (j + step) data"
      using iloc_agree [OF past] by blast
  qed
  then have "backtest_loop data' clf ps step (py_range start i step) model []
      = backtest_loop data clf ps step (py_range start i step) model []"
    by (rule backtest_loop_agree)
  with h(1) h'(1) have same: "o1' = o1" "m1' = m1" by simp_all
  from predict_Inr [OF h(2)] obtain train_x train_y where
      f: "getitems ps (iloc 0 i data) = Inr train_x" "getitem ''Target'' (iloc 0 i data) = Inr train_y"
         "fit clf m1 train_x train_y = Inr m2"
    by blast
  from predict_Inr [OF h'(2)] obtain train_x' train_y' where
      f': "getitems ps (iloc 0 i data') = Inr train_x'" "getitem ''Target'' (iloc 0 i data') = Inr train_y'"
         "fit clf m1' train_x' train_y' = Inr m2'"
    by blast
  from f f' past same have m2: "m2' = m2" by simp
  have agree: "getitems ps (iloc i (i + step) data') = getitems ps (iloc i (i + step) data)
               \<longrightarrow> getitem ''Predictions_60%'' c' = getitem ''Predictions_60%'' c"
  proof
    assume feats: "getitems ps (iloc i (i + step) data') = getitems ps (iloc i (i + step) data)"
    from h'(2) have p': "predict (iloc 0 i data) (iloc i (i + step) data') ps clf m1 = Inr (c', m2')"
      by (simp add: past same)
    from predict_agree [OF h(2) p' feats]
    show "getitem ''Predictions_60%'' c' = getitem ''Predictions_60%'' c" by simp
  qed
  from h'(1,2) same m2 have
      l': "backtest_loop data' clf ps step (py_range start i step) model [] = Inr (o1, m1)"
      and p2: "predict (iloc 0 i data') (iloc i (i + step) data') ps clf m1 = Inr (c', m2)"
    by simp_all
  from h(4,5) have lab: "\<exists>labels. getitem ''Predictions_60%'' c = Inr (FloatCol labels)
               \<and> length labels = nrows (iloc i (i + step) data)"
    by blast
  from h(1) l' h(2) p2 h(6) h(3) h'(3) lab agree show ?thesis by blast
qed

lemmas run_defs = backtest_def py_range.simps predict_def getitems_def getitem_def iloc_def
  nrows_def second_column_def preds_60_def cutoff_def assign_where_def pd_concat_def
  column_or_nan_def share_classifier_def Let_def

lemma backtest_history_a:
  "backtest history_a share_classifier 0 [''Close''] 1 1 = Inr (labels_a, 1)"
  by (simp add: run_defs history_a_def labels_a_def)

lemma backtest_history_b:
  "backtest history_b share_classifier 0 [''Close''] 1 1 = Inr (labels_b, 1 / 3)"
  by (simp add: run_defs history_b_def labels_b_def)

theorem backtest_no_lookahead_witness:
  "backtest history_a share_classifier 0 [''Close''] 1 1 = Inr (labels_a, 1)
   \<and> backtest history_b share_classifier 0 [''Close''] 1 1 = Inr (labels_b, 1 / 3)
   \<and> nrows history_b = nrows history_a
   \<and> 1 \<in> set (py_range 1 (nrows history_a) 1)
   \<and> iloc 0 1 history_b = iloc 0 1 history_a
   \<and> getitems [''Close''] (iloc 1 (1 + 1) history_b) = getitems [''Close''] (iloc 1 (1 + 1) history_a)
   \<and> getitem ''Target'' (iloc 1 (1 + 1) history_b) \<noteq> getitem ''Target'' (iloc 1 (1 + 1) history_a)
   \<and> (\<exists>window window' fitted.
         predict (iloc 0 1 history_a) (iloc 1 (1 + 1) history_a) [''Close''] share_classifier 0
           = Inr (window, fitted)
       \<and> predict (iloc 0 1 history_b) (iloc 1 (1 + 1) history_b) [''Close''] share_classifier 0
           = Inr (window', fitted)
       \<and> getitem ''Predictions_60%'' (iloc (1 - 1) (1 + 1 - 1) labels_b)
           = getitem ''Predictions_60%'' (iloc (1 - 1) (1 + 1 - 1) labels_a))"
proof -
  have n: "nrows history_b = nrows history_a"
    by (simp add: nrows_def history_a_def history_b_def)
  have i: "1 \<in> set (py_range 1 (nrows history_a) 1)"
    by (simp add: nrows_def history_a_def py_range.simps)
  have past: "iloc 0 1 history_b = iloc 0 1 history_a"
    by (simp add: iloc_def history_a_def history_b_def)
  have feats: "getitems [''Close''] (iloc 1 (1 + 1) history_b)
      = getitems [''Close''] (iloc 1 (1 + 1) history_a)"
    by (simp add: getitems_def iloc_def history_a_def history_b_def)
  have diff: "getitem ''Target'' (iloc 1 (1 + 1) history_b)
      \<noteq> getitem ''Target'' (iloc 1 (1 + 1) history_a)"
    by (simp add: getitem_def iloc_def history_a_def history_b_def)
  have r: "py_range 1 1 1 = []" by (simp add: py_range.simps)
  from backtest_no_lookahead [OF backtest_history_a backtest_history_b n i past]
  obtain before model_before window window' fitted where
      h: "backtest_loop history_a share_classifier [''Close''] 1 (py_range 1 1 1) 0 []
             = Inr (before, model_before)"
         "predict (iloc 0 1 history_a) (iloc 1 (1 + 1) history_a) [''Close''] share_classifier
             model_before = Inr (window, fitted)"
         "predict (iloc 0 1 history_b) (iloc 1 (1 + 1) history_b) [''Close''] share_classifier
             model_before = Inr (window', fitted)"
         "getitem ''Predictions_60%'' (iloc (1 - 1) (1 + 1 - 1) labels_a)
             = getitem ''Predictions_60%'' window"
         "getitem ''Predictions_60%'' (iloc (1 - 1) (1 + 1 - 1) labels_b)
             = getitem ''Predictions_60%'' window'"
         "getitems [''Close''] (iloc 1 (1 + 1) history_b) = getitems [''Close''] (iloc 1 (1 + 1) history_a)
               \<longrightarrow> getitem ''Predictions_60%'' window' = getitem ''Predictions_60%'' window"
    by blast
  from h(1) [unfolded r] have mb: "model_before = 0" by simp
  from h(4,5,6) feats have
      e: "getitem ''Predictions_60%'' (iloc (1 - 1) (1 + 1 - 1) labels_b)
           = getitem ''Predictions_60%'' (iloc (1 - 1) (1 + 1 - 1) labels_a)"
    by simp
  from h(2,3) mb e have
    "\<exists>window window' fitted.
         predict (iloc 0 1 history_a) (iloc 1 (1 + 1) history_a) [''Close''] share_classifier 0
           = Inr (window, fitted)
       \<and> predict (iloc 0 1 history_b) (iloc 1 (1 + 1) history_b) [''Close''] share_classifier 0
           = Inr (window', fitted)
       \<and> getitem ''Predictions_60%'' (iloc (1 - 1) (1 + 1 - 1) labels_b)
           = getitem ''Predictions_60%'' (iloc (1 - 1) (1 + 1 - 1) labels_a)"
    by blast
  with backtest_history_a backtest_history_b n i past feats diff show ?thesis
    by (intro conjI)
qed

section \<open>The windows of the backtester\<close>









section \<open>Properties of add\_predictors\<close>

lemma add_predictors_shape:
  "add_predictors \<lparr>index = ds, columns = [(''Close'', FloatCol cs), (''Tomorrow'', FloatCol ts),
                                          (''Target'', IntCol gs)]\<rparr>
     = Inr (with_ratios ds cs ts gs, dropna_except ''Tomorrow'' (with_ratios ds cs ts gs), ratio_names)"
  by (simp add: add_predictors_def benchmarks_def ratio_column_def getitem_def setitem_def
      with_ratios_def ratio_of_def ratio_names_def Let_def)

lemma length_rolling_mean [simp]: "length (rolling_mean h xs) = length xs"
  by (simp add: rolling_mean_def)

lemma length_ratio_of [simp]: "length (ratio_of h cs) = length cs"
  by (simp add: ratio_of_def div_columns_def)

lemma fdiv_NaN [simp]: "fdiv x NaN = NaN"
  by (cases x) simp_all

lemma rolling_mean_early: "k < length xs \<Longrightarrow> k + 1 < h \<Longrightarrow> rolling_mean h xs ! k = NaN"
  by (simp add: rolling_mean_def)

lemma ratio_of_nth:
  "k < length cs \<Longrightarrow> ratio_of h cs ! k = fdiv (cs ! k) (rolling_mean h cs ! k)"
  by (simp add: ratio_of_def div_columns_def)

lemma ratio_of_early: "k < length cs \<Longrightarrow> k + 1 < h \<Longrightarrow> isna (ratio_of h cs ! k)"
  by (simp add: ratio_of_nth rolling_mean_early isna_def)

lemma dropna_with_ratios:
  assumes "length ds = length cs" "length ts = length cs" "length gs = length cs"
  shows "dropna_except ''Tomorrow'' (with_ratios ds cs ts gs) =
     \<lparr>index = select (kept cs) ds,
      columns = map (\<lambda>(n, c). (n, col_select (kept cs) c)) (columns (with_ratios ds cs ts gs))\<rparr>"
proof -
  have "map (\<lambda>k. list_all (\<lambda>p. \<not> col_isna (snd p) ! k)
               (filter (\<lambda>p. fst p \<noteq> ''Tomorrow'') (columns (with_ratios ds cs ts gs))))
          [0..<nrows (with_ratios ds cs ts gs)] = kept cs"
    using assms by (simp add: with_ratios_def kept_def nrows_def)
  then show ?thesis
    by (simp add: dropna_except_def Let_def with_ratios_def)
qed

lemma select_Nil [simp]: "select [] xs = []" "select keep [] = []"
  by (simp_all add: select_def)

lemma select_Cons [simp]:
  "select (b # keep) (x # xs) = (if b then x # select keep xs else select keep xs)"
  by (simp add: select_def)

lemma length_select_le: "length (select keep xs) \<le> length xs"
proof (induction keep arbitrary: xs)
  case Nil
  then show ?case by simp
next
  case (Cons b keep)
  then show ?case
    by (cases xs) (auto intro: le_SucI)
qed

lemma select_skip:
  "\<forall>k < m. k < length keep \<longrightarrow> \<not> keep ! k \<Longrightarrow>
     select keep xs = select (drop m keep) (drop m xs)"
proof (induction m arbitrary: keep xs)
  case 0
  then show ?case by simp
next
  case (Suc m)
  show ?case
  proof (cases keep)
    case Nil
    then show ?thesis by simp
  next
    case (Cons b keep')
    with Suc.prems have b: "\<not> b" by auto
    from Suc.prems Cons have "\<forall>k < m. k < length keep' \<longrightarrow> \<not> keep' ! k" by auto
    from Suc.IH [OF this] b Cons show ?thesis
      by (cases xs) simp_all
  qed
qed

lemma select_all:
  "length keep = length xs \<Longrightarrow> \<forall>b \<in> set keep. b \<Longrightarrow> select keep xs = xs"
  by (induction keep xs rule: list_induct2) auto

lemma select_from:
  assumes "length keep = length xs" "\<forall>k < length keep. keep ! k = (m \<le> k)"
  shows "select keep xs = drop m xs"
proof -
  have "select keep xs = select (drop m keep) (drop m xs)"
    using assms(2) by (intro select_skip) simp
  also have "\<dots> = drop m xs"
    using assms by (intro select_all) (auto simp add: in_set_conv_nth)
  finally show ?thesis .
qed

lemma length_kept [simp]: "length (kept cs) = length cs"
  by (simp add: kept_def)

lemma kept_early: "k < 1259 \<Longrightarrow> k < length cs \<Longrightarrow> \<not> kept cs ! k"
  by (simp add: kept_def ratio_of_early)

lemma positiveD: "positive v \<Longrightarrow> \<exists>c. v = Finite c \<and> 0 < c"
  by (cases v) (simp_all add: positive_def)

lemma sum_positive:
  "\<forall>v \<in> set w. positive v \<Longrightarrow> \<exists>s. foldr fadd w (Finite 0) = Finite s \<and> (w \<noteq> [] \<longrightarrow> 0 < s) \<and> 0 \<le> s"
proof (induction w)
  case Nil
  then show ?case by simp
next
  case (Cons v w)
  then obtain s where s: "foldr fadd w (Finite 0) = Finite s" "0 \<le> s" by auto
  from Cons.prems obtain c where c: "v = Finite c" "0 < c"
    using positiveD [of v] by auto
  with s show ?case by simp
qed

lemma rolling_mean_positive:
  assumes "\<forall>v \<in> set xs. positive v" "k < length xs" "h \<le> k + 1" "0 < h"
  shows "positive (rolling_mean h xs ! k)"
proof -
  let ?w = "take h (drop (k + 1 - h) xs)"
  have w: "\<forall>v \<in> set ?w. positive v"
    using assms(1) by (meson in_set_dropD in_set_takeD)
  have ne: "?w \<noteq> []" using assms(2,3,4) by simp
  from sum_positive [OF w] ne obtain s where s: "foldr fadd ?w (Finite 0) = Finite s" "0 < s"
    by auto
  have "\<not> list_ex (\<lambda>v. \<not> isfinite v) ?w"
    using w by (auto simp add: list_ex_iff isfinite_def dest!: positiveD)
  with assms s show ?thesis
    by (simp add: rolling_mean_def Let_def positive_def)
qed

lemma ratio_of_positive:
  assumes "\<forall>v \<in> set cs. positive v" "k < length cs" "h \<le> k + 1" "0 < h"
  shows "\<not> isna (ratio_of h cs ! k)"
proof -
  from positiveD [OF rolling_mean_positive [OF assms]] obtain a where
      a: "rolling_mean h cs ! k = Finite a" "0 < a"
    by blast
  from assms(1,2) have "positive (cs ! k)" by simp
  from positiveD [OF this] obtain c where c: "cs ! k = Finite c"
    by blast
  from a c assms(2) show ?thesis by (simp add: ratio_of_nth isna_def)
qed

lemma kept_positive:
  assumes "\<forall>v \<in> set cs. positive v" "k < length cs"
  shows "kept cs ! k = (1259 \<le> k)"
proof (cases "1259 \<le> k")
  case True
  from assms have "positive (cs ! k)" by simp
  from positiveD [OF this] have "\<not> isna (cs ! k)"
    by (auto simp add: isna_def)
  with True assms show ?thesis
    by (simp add: kept_def ratio_of_positive)
next
  case False
  with assms(2) show ?thesis by (simp add: kept_early)
qed

lemma features_bound:
  assumes "length ds = length cs"
  shows "length (select (kept cs) ds) \<le> length cs - 1259"
proof -
  have "select (kept cs) ds = select (drop 1259 (kept cs)) (drop 1259 ds)"
    by (intro select_skip) (simp add: kept_early)
  then have "length (select (kept cs) ds) \<le> length (drop 1259 ds)"
    using length_select_le [of "drop 1259 (kept cs)" "drop 1259 ds"] by simp
  with assms show ?thesis by simp
qed

lemma dropna_positive:
  assumes len: "length ds = length cs" "length ts = length cs" "length gs = length cs"
      and pos: "\<forall>v \<in> set cs. positive v"
  shows "dropna_except ''Tomorrow'' (with_ratios ds cs ts gs)
           = iloc 1259 (length cs) (with_ratios ds cs ts gs)"
proof -
  have k: "\<forall>k < length (kept cs). kept cs ! k = (1259 \<le> k)"
    using pos by (simp add: kept_positive)
  have s: "select (kept cs) xs = drop 1259 xs" if "length xs = length cs" for xs :: "'a list"
    using that k by (intro select_from) simp_all
  show ?thesis
    unfolding dropna_with_ratios [OF len]
    using len by (simp add: iloc_def with_ratios_def s)
qed

text \<open>
  C6, as the program has it. For every bar sequence, the feature frame consists of rows of
  the cleaned frame (with its six ratio columns) selected in their order, none of them from a
  position below 1259, so it has at most \<open>n - 1259\<close> rows for a cleaned frame of \<open>n\<close>
  rows, and none when \<open>n \<le> 1259\<close>. When every close is a positive number, the feature
  frame is exactly the rows from position 1259 on: no gaps, and the first row is row 1259.
\<close>

theorem add_predictors_boundary:
  "\<exists>raw' cleaned data' features names keep.
      clean_data (frame_of_bars bs) = Inr (raw', cleaned)
    \<and> add_predictors cleaned = Inr (data', features, names)
    \<and> index data' = index cleaned
    \<and> length keep = nrows cleaned \<and> (\<forall>k < 1259. k < length keep \<longrightarrow> \<not> keep ! k)
    \<and> features = \<lparr>index = select keep (index data'),
                   columns = map (\<lambda>(n, c). (n, col_select keep c)) (columns data')\<rparr>
    \<and> nrows features \<le> nrows cleaned - 1259
    \<and> (list_all (\<lambda>b. positive (close b)) bs \<longrightarrow> features = iloc 1259 (nrows cleaned) data')"
proof -
  let ?k = "floor_pos bs"
  let ?ds = "drop ?k (map date bs)" and ?cs = "drop ?k (map close bs)"
  let ?ts = "drop ?k (tomorrow_of bs)" and ?gs = "drop ?k (target_of bs)"
  let ?cleaned = "\<lparr>index = ?ds, columns = [(''Close'', FloatCol ?cs), (''Tomorrow'', FloatCol ?ts),
                                          (''Target'', IntCol ?gs)]\<rparr>"
  let ?d = "with_ratios ?ds ?cs ?ts ?gs"
  let ?f = "dropna_except ''Tomorrow'' ?d"
  have len: "length ?ds = length ?cs" "length ?ts = length ?cs" "length ?gs = length ?cs"
    by simp_all
  have c: "clean_data (frame_of_bars bs) = Inr (\<lparr>index = map date bs,
           columns = [(''Close'', FloatCol (map close bs)),
                      (''Tomorrow'', FloatCol (tomorrow_of bs)),
                      (''Target'', IntCol (target_of bs))]\<rparr>, ?cleaned)"
    by (rule clean_data_bars)
  have a: "add_predictors ?cleaned = Inr (?d, ?f, ratio_names)"
    by (rule add_predictors_shape)
  have i: "index ?d = index ?cleaned" by (simp add: with_ratios_def)
  have n: "nrows ?cleaned = length ?cs" by (simp add: nrows_def)
  have k1: "length (kept ?cs) = nrows ?cleaned" by (simp add: nrows_def)
  have k2: "\<forall>k < 1259. k < length (kept ?cs) \<longrightarrow> \<not> kept ?cs ! k"
    by (simp add: kept_early)
  have f: "?f = \<lparr>index = select (kept ?cs) (index ?d),
                   columns = map (\<lambda>(n, c). (n, col_select (kept ?cs) c)) (columns ?d)\<rparr>"
    unfolding dropna_with_ratios [OF len] by (simp add: with_ratios_def)
  have b: "nrows ?f \<le> nrows ?cleaned - 1259"
    unfolding dropna_with_ratios [OF len] n nrows_def using features_bound [OF len(1)] by simp
  have p: "list_all (\<lambda>b. positive (close b)) bs \<longrightarrow> ?f = iloc 1259 (nrows ?cleaned) ?d"
  proof
    assume "list_all (\<lambda>b. positive (close b)) bs"
    then have "\<forall>v \<in> set (map close bs). positive v" by (simp add: list_all_iff)
    then have "\<forall>v \<in> set ?cs. positive v" by (meson in_set_dropD)
    from dropna_positive [OF len this] show "?f = iloc 1259 (nrows ?cleaned) ?d"
      unfolding n .
  qed
  from c a i k1 k2 f b p show ?thesis by blast
qed

lemma rising_bars_facts:
  "list_all (\<lambda>b. positive (close b)) (rising_bars n)"
  "length (rising_bars n) = n"
  "floor_pos (rising_bars n) = 0"
proof -
  show "list_all (\<lambda>b. positive (close b)) (rising_bars n)"
    by (simp add: rising_bars_def list_all_iff flat_bar_def positive_def)
  show "length (rising_bars n) = n" by (simp add: rising_bars_def)
  show "floor_pos (rising_bars n) = 0"
  proof (cases n)
    case 0
    then show ?thesis by (simp add: floor_pos_def rising_bars_def)
  next
    case (Suc m)
    then show ?thesis
      by (simp add: floor_pos_def rising_bars_def upt_conv_Cons flat_bar_def floor_date_def
          del: upt_Suc)
  qed
qed

theorem add_predictors_boundary_witness:
  "list_all (\<lambda>b. positive (close b)) (rising_bars 1300)
   \<and> (\<exists>raw' cleaned data' features names.
         clean_data (frame_of_bars (rising_bars 1300)) = Inr (raw', cleaned)
       \<and> add_predictors cleaned = Inr (data', features, names)
       \<and> nrows cleaned = 1300 \<and> features = iloc 1259 1300 data' \<and> nrows features = 41)"
proof -
  let ?bs = "rising_bars 1300"
  have pos: "list_all (\<lambda>b. positive (close b)) ?bs" by (rule rising_bars_facts)
  from add_predictors_boundary [of ?bs] obtain raw' cleaned data' features names where
      h: "clean_data (frame_of_bars ?bs) = Inr (raw', cleaned)"
         "add_predictors cleaned = Inr (data', features, names)"
         "index data' = index cleaned"
         "list_all (\<lambda>b. positive (close b)) ?bs \<longrightarrow> features = iloc 1259 (nrows cleaned) data'"
    by blast
  from h(1) have n: "nrows cleaned = 1300"
    by (auto simp add: clean_data_bars rising_bars_facts nrows_def)
  from h(4) pos n have f: "features = iloc 1259 1300 data'" by simp
  from h(3) n have "nrows data' = 1300" by (simp add: nrows_def)
  then have "nrows features = 41" by (simp add: f nrows_def iloc_def)
  with pos h(1,2) n f show ?thesis by blast
qed

lemmas pipeline_defs = clean_data_def frame_of_bars_def delitem_def getitem_def setitem_def
  loc_from_def iloc_def nrows_def flat_bar_def floor_date_def shift_back_def gt_astype_int_def
  add_predictors_def benchmarks_def rolling_mean_def div_columns_def dropna_except_def
  select_def isna_def isfinite_def ratio_column_def Let_def

text \<open>
  A cleaned series of two rows gives a feature frame without rows: it is shorter than its
  input by 2 rows, not by 1259, and has no first row.
\<close>

theorem add_predictors_short_series:
  "clean_data (frame_of_bars [flat_bar 19000 10, flat_bar 19001 11])
     = Inr (two_day_series, two_day_series)
   \<and> add_predictors two_day_series = Inr (two_day_ratios, no_features, ratio_names)
   \<and> nrows two_day_series = 2 \<and> nrows no_features = 0 \<and> index no_features = []"
  by (simp add: pipeline_defs two_day_series_def two_day_ratios_def no_features_def ratio_names_def)

text \<open>
  \<open>clean_data\<close> leaves the provider's frame changed, and \<open>add_predictors\<close> leaves the
  cleaned frame changed.
\<close>

theorem stages_change_their_input:
  "clean_data (frame_of_bars [flat_bar 19000 10, flat_bar 19001 11])
     = Inr (two_day_series, two_day_series)
   \<and> two_day_series \<noteq> frame_of_bars [flat_bar 19000 10, flat_bar 19001 11]
   \<and> add_predictors two_day_series = Inr (two_day_ratios, no_features, ratio_names)
   \<and> two_day_ratios \<noteq> two_day_series"
  by (simp add: pipeline_defs two_day_series_def two_day_ratios_def no_features_def ratio_names_def)

text \<open>
  C8, as the program has it. For bars in ascending date order, each of the two stages
  changes the frame it is given in place and returns a new frame. After \<open>clean_data\<close>
  the provider's frame has the columns Close, Tomorrow and Target over its old index, with
  its old Close column; the frame returned holds its rows from 2000 on. After
  \<open>add_predictors\<close> the cleaned frame has its index and its three columns and the six
  ratio columns after them; the frame returned holds its rows without NaN.
\<close>

theorem stages_work_in_place:
  assumes "sorted (map date bs)"
  shows "\<exists>raw' cleaned data' features names.
      clean_data (frame_of_bars bs) = Inr (raw', cleaned)
    \<and> index raw' = index (frame_of_bars bs)
    \<and> map fst (columns (frame_of_bars bs))
        = [''Open'', ''High'', ''Low'', ''Close'', ''Volume'', ''Dividends'', ''Stock Splits'']
    \<and> map fst (columns raw') = [''Close'', ''Tomorrow'', ''Target'']
    \<and> getitem ''Close'' raw' = getitem ''Close'' (frame_of_bars bs)
    \<and> cleaned = loc_from floor_date raw'
    \<and> add_predictors cleaned = Inr (data', features, names)
    \<and> index data' = index cleaned
    \<and> take 3 (columns data') = columns cleaned
    \<and> map fst (drop 3 (columns data')) = ratio_names
    \<and> features = dropna_except ''Tomorrow'' data'"
  by (simp add: clean_data_bars add_predictors_shape with_ratios_def ratio_names_def)
     (simp add: frame_of_bars_def getitem_def loc_from_def iloc_def nrows_def floor_pos_def)

theorem stages_work_in_place_witness:
  "sorted (map date [flat_bar 19000 10, flat_bar 19001 11])
   \<and> (\<exists>raw' cleaned data' features names.
        clean_data (frame_of_bars [flat_bar 19000 10, flat_bar 19001 11]) = Inr (raw', cleaned)
      \<and> map fst (columns raw') = [''Close'', ''Tomorrow'', ''Target'']
      \<and> add_predictors cleaned = Inr (data', features, names)
      \<and> take 3 (columns data') = columns cleaned
      \<and> map fst (drop 3 (columns data')) = ratio_names)"
proof -
  have s: "sorted (map date [flat_bar 19000 10, flat_bar 19001 11])"
    by (simp add: flat_bar_def)
  from stages_work_in_place [OF s]
  have "\<exists>raw' cleaned data' features names.
        clean_data (frame_of_bars [flat_bar 19000 10, flat_bar 19001 11]) = Inr (raw', cleaned)
      \<and> map fst (columns raw') = [''Close'', ''Tomorrow'', ''Target'']
      \<and> add_predictors cleaned = Inr (data', features, names)
      \<and> take 3 (columns data') = columns cleaned
      \<and> map fst (drop 3 (columns data')) = ratio_names"
    by (elim exE conjE) (intro exI conjI; assumption)
  with s show ?thesis by (rule conjI)
qed

section \<open>The pipeline on a short history\<close>

text \<open>
  A history of fewer than 1260 bars, in ascending date order, leaves no feature row; the
  start is then 0, the range is empty and \<open>buy_stock\<close> ends in the ValueError of
  \<open>pd.concat\<close>, whatever the classifier.
\<close>

lemma buy_stock_short_history:
  assumes "length bs \<le> 1259" and "sorted (map date bs)"
  shows "buy_stock (frame_of_bars bs) clf model = Inl ValueError"
proof -
  let ?k = "floor_pos bs"
  let ?ds = "drop ?k (map date bs)" and ?cs = "drop ?k (map close bs)"
  let ?ts = "drop ?k (tomorrow_of bs)" and ?gs = "drop ?k (target_of bs)"
  let ?d = "with_ratios ?ds ?cs ?ts ?gs"
  let ?f = "dropna_except ''Tomorrow'' ?d"
  have len: "length ?ds = length ?cs" "length ?ts = length ?cs" "length ?gs = length ?cs"
    by simp_all
  have "nrows ?f \<le> length ?cs - 1259"
    unfolding dropna_with_ratios [OF len] nrows_def using features_bound [OF len(1)] by simp
  with assms(1) have n: "nrows ?f = 0" by simp
  then have "backtest ?f clf model (ratio_names @ [''Close'']) 0 (21 * 3) = Inl ValueError"
    by (intro backtest_empty_range) simp
  with n show ?thesis
    by (simp add: buy_stock_def clean_data_bars add_predictors_shape)
qed

end
